theory Spec2Isabelle
  imports Complex_Main
begin

section \<open>Go library functions used by the collectors\<close>

text \<open>
  The three collectors of \<^verbatim>\<open>internal/collector\<close> (powermetrics, vm_stat, macmon) read the
  standard output of an external command and turn it into Prometheus samples. A Go
  \<^verbatim>\<open>string\<close> is a byte sequence and is modelled by \<^typ>\<open>string\<close>. The functions of package
  \<^verbatim>\<open>strings\<close> that the collectors call are written out below on bytes: a byte is white
  space when it is one of the six ASCII space characters (the Unicode spaces above 0x7F
  that \<^verbatim>\<open>unicode.IsSpace\<close> also accepts are not modelled).

  A \<^verbatim>\<open>float64\<close> is modelled by the real number it denotes (rounding, NaN and the
  infinities are not represented). \<^verbatim>\<open>strconv.ParseFloat(s, 64)\<close> is a parameter
  \<open>pf\<close> of every function that calls it: \<open>pf s = None\<close> stands for \<^verbatim>\<open>err != nil\<close>.
\<close>

type_synonym float_parser = "string \<Rightarrow> real option"

definition isSpace :: "char \<Rightarrow> bool" where
  "isSpace c = (c = CHR '' '' \<or> c = CHR 0x09 \<or> c = CHR 0x0A \<or> c = CHR 0x0B
                \<or> c = CHR 0x0C \<or> c = CHR 0x0D)"

fun HasPrefix :: "string \<Rightarrow> string \<Rightarrow> bool" where
  "HasPrefix s [] = True"
| "HasPrefix [] (p # ps) = False"
| "HasPrefix (c # s) (p # ps) = (c = p \<and> HasPrefix s ps)"

fun Contains :: "string \<Rightarrow> string \<Rightarrow> bool" where
  "Contains [] substr = (substr = [])"
| "Contains (c # s) substr = (HasPrefix (c # s) substr \<or> Contains s substr)"

text \<open>\<^verbatim>\<open>strings.Fields\<close>: the maximal runs of non-space bytes, in order.\<close>

fun fields_from :: "string \<Rightarrow> string \<Rightarrow> string list" where
  "fields_from cur [] = (if cur = [] then [] else [cur])"
| "fields_from cur (c # cs) =
     (if isSpace c then (if cur = [] then fields_from [] cs else cur # fields_from [] cs)
      else fields_from (cur @ [c]) cs)"

definition Fields :: "string \<Rightarrow> string list" where
  "Fields s = fields_from [] s"

definition TrimSpace :: "string \<Rightarrow> string" where
  "TrimSpace s = rev (dropWhile isSpace (rev (dropWhile isSpace s)))"

text \<open>\<^verbatim>\<open>strings.TrimRight(s, cutset)\<close> removes every trailing byte that is in the cutset.\<close>

definition TrimRight :: "string \<Rightarrow> string \<Rightarrow> string" where
  "TrimRight s cutset = rev (dropWhile (\<lambda>c. c \<in> set cutset) (rev s))"

text \<open>\<^verbatim>\<open>strings.TrimSuffix(s, suffix)\<close> removes the suffix once, when \<open>s\<close> ends with it.\<close>

definition TrimSuffix :: "string \<Rightarrow> string \<Rightarrow> string" where
  "TrimSuffix s suffix =
     (if HasPrefix (rev s) (rev suffix) then take (length s - length suffix) s else s)"

text \<open>\<^verbatim>\<open>strings.SplitN(line, ":", 2)\<close>: the line itself when it has no colon, otherwise the
  text before the first colon and the text after it.\<close>

definition SplitN_colon_2 :: "string \<Rightarrow> string list" where
  "SplitN_colon_2 line =
     (if CHR '':'' \<in> set line
      then [takeWhile (\<lambda>c. c \<noteq> CHR '':'') line, tl (dropWhile (\<lambda>c. c \<noteq> CHR '':'') line)]
      else [line])"

text \<open>
  \<^verbatim>\<open>bufio.Scanner\<close> with its default split function \<^verbatim>\<open>ScanLines\<close>: the text is cut at
  each newline, a final line without newline is delivered when it is not empty, and one
  trailing carriage return is dropped from each line. The scanner's buffer holds at most
  \<^verbatim>\<open>MaxScanTokenSize\<close> bytes, so \<^verbatim>\<open>Scan\<close> returns false (and the loop ends) at the first
  line that does not fit.
\<close>

fun raw_lines :: "string \<Rightarrow> string \<Rightarrow> string list" where
  "raw_lines cur [] = (if cur = [] then [] else [cur])"
| "raw_lines cur (c # cs) =
     (if c = CHR 0x0A then cur # raw_lines [] cs else raw_lines (cur @ [c]) cs)"

definition dropCR :: "string \<Rightarrow> string" where
  "dropCR l = (if l \<noteq> [] \<and> last l = CHR 0x0D then butlast l else l)"

definition MaxScanTokenSize :: nat where
  "MaxScanTokenSize = 65536"

definition ScanLines :: "string \<Rightarrow> string list" where
  "ScanLines data = map dropCR (takeWhile (\<lambda>l. length l < MaxScanTokenSize) (raw_lines [] data))"

text \<open>
  \<^verbatim>\<open>utf8.ValidString\<close>: the bytes are a sequence of well-formed UTF-8 encodings. The
  first byte of an encoding fixes its length and the range of the second byte (no
  overlong forms, no surrogates, nothing above U+10FFFF); the later bytes are in
  0x80..0xBF.
\<close>

definition continuation :: "char \<Rightarrow> nat \<Rightarrow> nat \<Rightarrow> bool" where
  "continuation c lo hi = (lo \<le> (of_char c :: nat) \<and> (of_char c :: nat) \<le> hi)"

fun ValidString :: "string \<Rightarrow> bool" where
  "ValidString [] = True"
| "ValidString (c # s) =
     (let b = (of_char c :: nat) in
      if b < 0x80 then ValidString s
      else if 0xC2 \<le> b \<and> b \<le> 0xDF then
        (case s of
           c1 # s1 \<Rightarrow> continuation c1 0x80 0xBF \<and> ValidString s1
         | _ \<Rightarrow> False)
      else if 0xE0 \<le> b \<and> b \<le> 0xEF then
        (case s of
           c1 # c2 # s2 \<Rightarrow>
             continuation c1 (if b = 0xE0 then 0xA0 else 0x80) (if b = 0xED then 0x9F else 0xBF)
             \<and> continuation c2 0x80 0xBF \<and> ValidString s2
         | _ \<Rightarrow> False)
      else if 0xF0 \<le> b \<and> b \<le> 0xF4 then
        (case s of
           c1 # c2 # c3 # s3 \<Rightarrow>
             continuation c1 (if b = 0xF0 then 0x90 else 0x80) (if b = 0xF4 then 0x8F else 0xBF)
             \<and> continuation c2 0x80 0xBF \<and> continuation c3 0x80 0xBF \<and> ValidString s3
         | _ \<Rightarrow> False)
      else False)"

section \<open>Samples, panics, command results, collector results\<close>

datatype value_type = GaugeValue | CounterValue

text \<open>A sample as it arrives on the channel \<^verbatim>\<open>ch\<close>.\<close>

record 'd metric =
  desc :: 'd
  valueType :: value_type
  val :: real
  labelValues :: "string list"

text \<open>
  \<^verbatim>\<open>prometheus.MustNewConstMetric\<close> panics with the error of \<^verbatim>\<open>NewConstMetric\<close>, which
  comes from \<^verbatim>\<open>validateLabelValues\<close>: the number of label values differs from the number
  of variable labels of the descriptor, or a label value is not valid UTF-8. A descriptor
  is named by the field of the collector that holds it; the variable labels that
  \<^verbatim>\<open>prometheus.NewDesc\<close> was given for it are the first argument below.
\<close>

datatype panic = InconsistentCardinality | InvalidUTF8 string

definition validateLabelValues :: "string list \<Rightarrow> nat \<Rightarrow> panic option" where
  "validateLabelValues vals expectedNumberOfValues =
     (if length vals \<noteq> expectedNumberOfValues then Some InconsistentCardinality
      else case filter (\<lambda>v. \<not> ValidString v) vals of
             [] \<Rightarrow> None
           | v # _ \<Rightarrow> Some (InvalidUTF8 v))"

definition MustNewConstMetric ::
  "('d \<Rightarrow> string list) \<Rightarrow> 'd \<Rightarrow> value_type \<Rightarrow> real \<Rightarrow> string list \<Rightarrow> panic + 'd metric" where
  "MustNewConstMetric variableLabels d t v vals =
     (case validateLabelValues vals (length (variableLabels d)) of
        Some p \<Rightarrow> Inl p
      | None \<Rightarrow> Inr \<lparr>desc = d, valueType = t, val = v, labelValues = vals\<rparr>)"

text \<open>What \<^verbatim>\<open>cmd.Run()\<close> leaves behind: the error (its text), if any, and the bytes
  written to the standard-output buffer.\<close>

record cmd_result =
  run_err :: "string option"
  stdout :: string

text \<open>
  What a piece of \<^verbatim>\<open>Collect\<close> does: the samples sent on the channel, in order, the
  lines written with \<^verbatim>\<open>log.Printf\<close>, and the panic that ended it, if any. A statement
  \<^verbatim>\<open>ch <- prometheus.MustNewConstMetric(...)\<close> sends one sample or panics; of two pieces
  in sequence the second runs only when the first did not panic.
\<close>

record 'd collected =
  sent :: "'d metric list"
  logged :: "string list"
  panicked :: "panic option"

definition skip :: "'d collected" where
  "skip = \<lparr>sent = [], logged = [], panicked = None\<rparr>"

definition send :: "panic + 'd metric \<Rightarrow> 'd collected" where
  "send r =
     (case r of
        Inl p \<Rightarrow> \<lparr>sent = [], logged = [], panicked = Some p\<rparr>
      | Inr m \<Rightarrow> \<lparr>sent = [m], logged = [], panicked = None\<rparr>)"

definition log_Printf :: "string \<Rightarrow> 'd collected" where
  "log_Printf msg = \<lparr>sent = [], logged = [msg], panicked = None\<rparr>"

definition andThen :: "'d collected \<Rightarrow> 'd collected \<Rightarrow> 'd collected" where
  "andThen a b =
     (case panicked a of
        Some p \<Rightarrow> a
      | None \<Rightarrow> \<lparr>sent = sent a @ sent b, logged = logged a @ logged b, panicked = panicked b\<rparr>)"

fun seq :: "'d collected list \<Rightarrow> 'd collected" where
  "seq [] = skip"
| "seq (a # rest) = andThen a (seq rest)"

section \<open>The powermetrics collector\<close>

datatype pm_desc =
    cpuFrequency | cpuTemperature | cpuPower | gpuPower
  | cpuActiveResidency | cpuIdleResidency | gpuActiveResidency | gpuIdleResidency

text \<open>The variable labels given to \<^verbatim>\<open>NewDesc\<close> in \<^verbatim>\<open>NewPowermetricsCollector\<close>.\<close>

fun pm_variableLabels :: "pm_desc \<Rightarrow> string list" where
  "pm_variableLabels cpuFrequency = [''core'']"
| "pm_variableLabels cpuTemperature = [''sensor_id'']"
| "pm_variableLabels cpuPower = []"
| "pm_variableLabels gpuPower = []"
| "pm_variableLabels cpuActiveResidency = [''core'']"
| "pm_variableLabels cpuIdleResidency = [''core'']"
| "pm_variableLabels gpuActiveResidency = []"
| "pm_variableLabels gpuIdleResidency = []"

record pm_flags =
  cpuPowerSent :: bool
  gpuPowerSent :: bool

text \<open>The loop over \<^verbatim>\<open>parts\<close> of the two power blocks: it stops (\<^verbatim>\<open>break\<close>) at the first
  token \<^verbatim>\<open>Power:\<close> that has a successor and parses that successor.\<close>

fun power_loop :: "float_parser \<Rightarrow> string list \<Rightarrow> real option" where
  "power_loop pf (part # powerStr # rest) =
     (if part = ''Power:'' then pf powerStr else power_loop pf (powerStr # rest))"
| "power_loop pf parts = None"

text \<open>The flag of a power block is set by the statement after the send, so only when the
  send did not panic.\<close>

definition cpu_power_block ::
  "float_parser \<Rightarrow> pm_flags \<Rightarrow> string \<Rightarrow> pm_flags \<times> pm_desc collected" where
  "cpu_power_block pf fl line =
     (if \<not> cpuPowerSent fl \<and> Contains line ''CPU Power:'' \<and> Contains line ''mW''
      then (case power_loop pf (Fields line) of
              Some powerVal \<Rightarrow>
                (let s = send (MustNewConstMetric pm_variableLabels cpuPower GaugeValue powerVal [])
                 in (if panicked s = None then fl\<lparr>cpuPowerSent := True\<rparr> else fl, s))
            | None \<Rightarrow> (fl, skip))
      else (fl, skip))"

definition gpu_power_block ::
  "float_parser \<Rightarrow> pm_flags \<Rightarrow> string \<Rightarrow> pm_flags \<times> pm_desc collected" where
  "gpu_power_block pf fl line =
     (if \<not> gpuPowerSent fl \<and> Contains line ''GPU Power:'' \<and> Contains line ''mW''
      then (case power_loop pf (Fields line) of
              Some powerVal \<Rightarrow>
                (let s = send (MustNewConstMetric pm_variableLabels gpuPower GaugeValue powerVal [])
                 in (if panicked s = None then fl\<lparr>gpuPowerSent := True\<rparr> else fl, s))
            | None \<Rightarrow> (fl, skip))
      else (fl, skip))"

text \<open>The loop of the frequency block runs over all of \<^verbatim>\<open>parts\<close> (no \<^verbatim>\<open>break\<close>) and
  updates the two local variables \<^verbatim>\<open>cpuCore\<close> and \<^verbatim>\<open>freqValue\<close>.\<close>

fun freq_loop :: "float_parser \<Rightarrow> string list \<Rightarrow> string \<times> real \<Rightarrow> string \<times> real" where
  "freq_loop pf (part # nxt # rest) (cpuCore, freqValue) =
     freq_loop pf (nxt # rest)
       (if part = ''CPU'' then nxt else cpuCore,
        if part = ''frequency:''
        then (case pf nxt of Some freq \<Rightarrow> freq * 1000000 | None \<Rightarrow> freqValue)
        else freqValue)"
| "freq_loop pf parts vars = vars"

definition frequency_block :: "float_parser \<Rightarrow> string \<Rightarrow> pm_desc collected" where
  "frequency_block pf line =
     (if Contains line ''frequency:'' \<and> Contains line ''MHz'' \<and> Contains line ''CPU''
      then (case freq_loop pf (Fields line) ('''', 0) of
              (cpuCore, freqValue) \<Rightarrow>
                if cpuCore \<noteq> '''' \<and> freqValue > 0
                then send (MustNewConstMetric pm_variableLabels cpuFrequency GaugeValue freqValue
                             [''cpu'' @ cpuCore])
                else skip)
      else skip)"

text \<open>The loop of the two per-core residency blocks (the same text in both).\<close>

fun residency_loop :: "float_parser \<Rightarrow> string list \<Rightarrow> string \<times> real \<Rightarrow> string \<times> real" where
  "residency_loop pf (part # nxt # rest) (cpuCore, residencyValue) =
     residency_loop pf (nxt # rest)
       (if part = ''CPU'' then nxt else cpuCore,
        if part = ''residency:''
        then (case pf (TrimSuffix nxt ''%'') of
                Some residency \<Rightarrow> residency | None \<Rightarrow> residencyValue)
        else residencyValue)"
| "residency_loop pf parts vars = vars"

definition cpu_residency_block ::
  "string \<Rightarrow> pm_desc \<Rightarrow> float_parser \<Rightarrow> string \<Rightarrow> pm_desc collected" where
  "cpu_residency_block marker d pf line =
     (if Contains line marker \<and> Contains line ''%'' \<and> Contains line ''CPU''
      then (case residency_loop pf (Fields line) ('''', 0) of
              (cpuCore, residencyValue) \<Rightarrow>
                if cpuCore \<noteq> '''' \<and> residencyValue \<ge> 0
                then send (MustNewConstMetric pm_variableLabels d GaugeValue residencyValue
                             [''cpu'' @ cpuCore])
                else skip)
      else skip)"

text \<open>The loop of the two GPU residency blocks: first token \<^verbatim>\<open>residency:\<close> with a
  successor, then \<^verbatim>\<open>break\<close>.\<close>

fun gpu_residency_loop :: "float_parser \<Rightarrow> string list \<Rightarrow> real option" where
  "gpu_residency_loop pf (part # nxt # rest) =
     (if part = ''residency:'' then pf (TrimSuffix nxt ''%'')
      else gpu_residency_loop pf (nxt # rest))"
| "gpu_residency_loop pf parts = None"

definition gpu_residency_block ::
  "string \<Rightarrow> pm_desc \<Rightarrow> float_parser \<Rightarrow> string \<Rightarrow> pm_desc collected" where
  "gpu_residency_block marker d pf line =
     (if Contains line marker \<and> Contains line ''%''
      then (case gpu_residency_loop pf (Fields line) of
              Some residency \<Rightarrow>
                send (MustNewConstMetric pm_variableLabels d GaugeValue residency [])
            | None \<Rightarrow> skip)
      else skip)"

text \<open>One iteration of \<^verbatim>\<open>for scanner.Scan()\<close>: the seven blocks in the order of the
  source. A panic in a block ends the iteration, and with it the loop and \<^verbatim>\<open>Collect\<close>.\<close>

definition pm_line ::
  "float_parser \<Rightarrow> pm_flags \<Rightarrow> string \<Rightarrow> pm_flags \<times> pm_desc collected" where
  "pm_line pf fl line =
     (case cpu_power_block pf fl line of (fl1, s1) \<Rightarrow>
      case gpu_power_block pf fl1 line of (fl2, s2) \<Rightarrow>
        (fl2, seq [s1, s2,
                   frequency_block pf line,
                   cpu_residency_block ''active residency:'' cpuActiveResidency pf line,
                   cpu_residency_block ''idle residency:'' cpuIdleResidency pf line,
                   gpu_residency_block ''GPU HW active residency:'' gpuActiveResidency pf line,
                   gpu_residency_block ''GPU idle residency:'' gpuIdleResidency pf line]))"

fun pm_scan :: "float_parser \<Rightarrow> pm_flags \<Rightarrow> string list \<Rightarrow> pm_desc collected" where
  "pm_scan pf fl [] = skip"
| "pm_scan pf fl (line # lines) =
     (case pm_line pf fl line of (fl', s) \<Rightarrow> andThen s (pm_scan pf fl' lines))"

definition pm_Collect :: "float_parser \<Rightarrow> cmd_result \<Rightarrow> pm_desc collected" where
  "pm_Collect pf r =
     (case run_err r of
        Some err \<Rightarrow> log_Printf (''Failed to run powermetrics: '' @ err)
      | None \<Rightarrow>
          pm_scan pf \<lparr>cpuPowerSent = False, gpuPowerSent = False\<rparr> (ScanLines (stdout r)))"

section \<open>The vm_stat collector\<close>

datatype vm_desc =
    freePages | activePages | inactivePages | speculativePages | throttledPages
  | wiredPages | purgeablePages | copyOnWrite | zeroFilled | reactivated | purged
  | fileBacked | anonymous | uncompressed | compressor | decompressed | compressed
  | pageIns | pageOuts | faults | swapIns | swapOuts | pageSize

text \<open>No descriptor of \<^verbatim>\<open>NewVmStatCollector\<close> has a variable label.\<close>

definition vm_variableLabels :: "vm_desc \<Rightarrow> string list" where
  "vm_variableLabels d = []"

text \<open>One iteration of the scanning loop: the map \<^verbatim>\<open>valueMap\<close> before and after the line.\<close>

definition vm_line :: "float_parser \<Rightarrow> (string \<rightharpoonup> real) \<Rightarrow> string \<Rightarrow> (string \<rightharpoonup> real)" where
  "vm_line pf valueMap line =
     (let parts = SplitN_colon_2 line in
      if length parts \<noteq> 2 then valueMap
      else let key = TrimSpace (parts ! 0);
               valueStr = TrimRight (TrimSpace (parts ! 1)) ''.''
           in case pf valueStr of
                None \<Rightarrow> valueMap
              | Some v \<Rightarrow> valueMap(key \<mapsto> v))"

fun vm_scan :: "float_parser \<Rightarrow> (string \<rightharpoonup> real) \<Rightarrow> string list \<Rightarrow> (string \<rightharpoonup> real)" where
  "vm_scan pf valueMap [] = valueMap"
| "vm_scan pf valueMap (line # lines) = vm_scan pf (vm_line pf valueMap line) lines"

text \<open>One statement \<^verbatim>\<open>if val, ok := valueMap[key]; ok { ch <- ... }\<close>.\<close>

definition send_if_present ::
  "(string \<rightharpoonup> real) \<Rightarrow> string \<Rightarrow> vm_desc \<Rightarrow> value_type \<Rightarrow> vm_desc collected" where
  "send_if_present valueMap key d t =
     (case valueMap key of
        Some v \<Rightarrow> send (MustNewConstMetric vm_variableLabels d t v [])
      | None \<Rightarrow> skip)"

definition vm_emit :: "(string \<rightharpoonup> real) \<Rightarrow> vm_desc collected" where
  "vm_emit valueMap =
     seq [send_if_present valueMap ''Pages free'' freePages GaugeValue,
          send_if_present valueMap ''Pages active'' activePages GaugeValue,
          send_if_present valueMap ''Pages inactive'' inactivePages GaugeValue,
          send_if_present valueMap ''Pages speculative'' speculativePages GaugeValue,
          send_if_present valueMap ''Pages throttled'' throttledPages GaugeValue,
          send_if_present valueMap ''Pages wired down'' wiredPages GaugeValue,
          send_if_present valueMap ''Pages purgeable'' purgeablePages GaugeValue,
          send_if_present valueMap ''Copy-on-writes'' copyOnWrite CounterValue,
          send_if_present valueMap ''Pages zero filled'' zeroFilled CounterValue,
          send_if_present valueMap ''Pages reactivated'' reactivated CounterValue,
          send_if_present valueMap ''Pages purged'' purged CounterValue,
          send_if_present valueMap ''File-backed pages'' fileBacked GaugeValue,
          send_if_present valueMap ''Anonymous pages'' anonymous GaugeValue,
          send_if_present valueMap ''Pages stored in compressor'' compressor GaugeValue,
          send_if_present valueMap ''Pages decompressed'' decompressed CounterValue,
          send_if_present valueMap ''Pages compressed'' compressed CounterValue,
          send_if_present valueMap ''Pageins'' pageIns CounterValue,
          send_if_present valueMap ''Pageouts'' pageOuts CounterValue,
          send_if_present valueMap ''Swapins'' swapIns CounterValue,
          send_if_present valueMap ''Swapouts'' swapOuts CounterValue,
          send_if_present valueMap ''Page faults'' faults CounterValue]"

text \<open>The same statements as a table: observation key, descriptor, value type.\<close>

definition vm_rules :: "(string \<times> vm_desc \<times> value_type) list" where
  "vm_rules =
     [(''Pages free'', freePages, GaugeValue),
      (''Pages active'', activePages, GaugeValue),
      (''Pages inactive'', inactivePages, GaugeValue),
      (''Pages speculative'', speculativePages, GaugeValue),
      (''Pages throttled'', throttledPages, GaugeValue),
      (''Pages wired down'', wiredPages, GaugeValue),
      (''Pages purgeable'', purgeablePages, GaugeValue),
      (''Copy-on-writes'', copyOnWrite, CounterValue),
      (''Pages zero filled'', zeroFilled, CounterValue),
      (''Pages reactivated'', reactivated, CounterValue),
      (''Pages purged'', purged, CounterValue),
      (''File-backed pages'', fileBacked, GaugeValue),
      (''Anonymous pages'', anonymous, GaugeValue),
      (''Pages stored in compressor'', compressor, GaugeValue),
      (''Pages decompressed'', decompressed, CounterValue),
      (''Pages compressed'', compressed, CounterValue),
      (''Pageins'', pageIns, CounterValue),
      (''Pageouts'', pageOuts, CounterValue),
      (''Swapins'', swapIns, CounterValue),
      (''Swapouts'', swapOuts, CounterValue),
      (''Page faults'', faults, CounterValue)]"

text \<open>\<^verbatim>\<open>Collect\<close>; \<open>getpagesize\<close> is the result of \<^verbatim>\<open>syscall.Getpagesize()\<close>.\<close>

definition vm_Collect :: "int \<Rightarrow> float_parser \<Rightarrow> cmd_result \<Rightarrow> vm_desc collected" where
  "vm_Collect getpagesize pf r =
     andThen
       (send (MustNewConstMetric vm_variableLabels pageSize GaugeValue
                (real_of_int getpagesize) []))
       (case run_err r of
          Some err \<Rightarrow> log_Printf (''Failed to run vm_stat: '' @ err)
        | None \<Rightarrow> vm_emit (vm_scan pf Map.empty (ScanLines (stdout r))))"

section \<open>The macmon collector\<close>

datatype mm_desc =
    mm_allPower | mm_anePower | mm_cpuPower | mm_gpuPower | mm_gpuRAMPower | mm_ramPower
  | mm_sysPower | mm_cpuTempAvg | mm_gpuTempAvg
  | mm_ecpuFrequency | mm_ecpuUsagePercent | mm_pcpuFrequency | mm_pcpuUsagePercent
  | mm_gpuFrequency | mm_gpuUsagePercent
  | mm_ramTotalBytes | mm_ramUsedBytes | mm_swapTotalBytes | mm_swapUsedBytes

text \<open>No descriptor of \<^verbatim>\<open>NewMacMonCollector\<close> has a variable label.\<close>

definition mm_variableLabels :: "mm_desc \<Rightarrow> string list" where
  "mm_variableLabels d = []"

text \<open>The struct \<^verbatim>\<open>MacMonOutput\<close>; the two nested structs are flattened.\<close>

record MacMonOutput =
  AllPower :: real
  ANEPower :: real
  CPUPower :: real
  GPUPower :: real
  GPURAMPower :: real
  RAMPower :: real
  SysPower :: real
  Temp_CPUTempAvg :: real
  Temp_GPUTempAvg :: real
  ECPUsage :: "real list"
  PCPUsage :: "real list"
  GPUUsage :: "real list"
  Memory_RAMTotal :: int
  Memory_RAMUsage :: int
  Memory_SwapTotal :: int
  Memory_SwapUsage :: int

text \<open>The zero value that \<^verbatim>\<open>var data MacMonOutput\<close> declares afresh in every iteration.\<close>

definition zero_MacMonOutput :: MacMonOutput where
  "zero_MacMonOutput =
     \<lparr>AllPower = 0, ANEPower = 0, CPUPower = 0, GPUPower = 0, GPURAMPower = 0, RAMPower = 0,
      SysPower = 0, Temp_CPUTempAvg = 0, Temp_GPUTempAvg = 0,
      ECPUsage = [], PCPUsage = [], GPUUsage = [],
      Memory_RAMTotal = 0, Memory_RAMUsage = 0, Memory_SwapTotal = 0, Memory_SwapUsage = 0\<rparr>"

text \<open>\<^verbatim>\<open>json.Unmarshal([]byte(line), &data)\<close> is a parameter: it is given the line and the
  struct it decodes into, and returns the error text or the struct after decoding.\<close>

type_synonym json_unmarshal = "string \<Rightarrow> MacMonOutput \<Rightarrow> string + MacMonOutput"

definition usage_pair :: "mm_desc \<Rightarrow> mm_desc \<Rightarrow> real list \<Rightarrow> mm_desc collected" where
  "usage_pair dfreq dusage arr =
     (if length arr \<ge> 2
      then seq [send (MustNewConstMetric mm_variableLabels dfreq GaugeValue (arr ! 0) []),
                send (MustNewConstMetric mm_variableLabels dusage GaugeValue (arr ! 1) [])]
      else skip)"

definition mm_emit :: "MacMonOutput \<Rightarrow> mm_desc collected" where
  "mm_emit data =
     seq [send (MustNewConstMetric mm_variableLabels mm_allPower GaugeValue (AllPower data) []),
          send (MustNewConstMetric mm_variableLabels mm_anePower GaugeValue (ANEPower data) []),
          send (MustNewConstMetric mm_variableLabels mm_cpuPower GaugeValue (CPUPower data) []),
          send (MustNewConstMetric mm_variableLabels mm_gpuPower GaugeValue (GPUPower data) []),
          send (MustNewConstMetric mm_variableLabels mm_gpuRAMPower GaugeValue
                  (GPURAMPower data) []),
          send (MustNewConstMetric mm_variableLabels mm_ramPower GaugeValue (RAMPower data) []),
          send (MustNewConstMetric mm_variableLabels mm_sysPower GaugeValue (SysPower data) []),
          send (MustNewConstMetric mm_variableLabels mm_cpuTempAvg GaugeValue
                  (Temp_CPUTempAvg data) []),
          send (MustNewConstMetric mm_variableLabels mm_gpuTempAvg GaugeValue
                  (Temp_GPUTempAvg data) []),
          usage_pair mm_ecpuFrequency mm_ecpuUsagePercent (ECPUsage data),
          usage_pair mm_pcpuFrequency mm_pcpuUsagePercent (PCPUsage data),
          usage_pair mm_gpuFrequency mm_gpuUsagePercent (GPUUsage data),
          send (MustNewConstMetric mm_variableLabels mm_ramTotalBytes GaugeValue
                  (real_of_int (Memory_RAMTotal data)) []),
          send (MustNewConstMetric mm_variableLabels mm_ramUsedBytes GaugeValue
                  (real_of_int (Memory_RAMUsage data)) []),
          send (MustNewConstMetric mm_variableLabels mm_swapTotalBytes GaugeValue
                  (real_of_int (Memory_SwapTotal data)) []),
          send (MustNewConstMetric mm_variableLabels mm_swapUsedBytes GaugeValue
                  (real_of_int (Memory_SwapUsage data)) [])]"

definition mm_line :: "json_unmarshal \<Rightarrow> string \<Rightarrow> mm_desc collected" where
  "mm_line unmarshal line =
     (case unmarshal line zero_MacMonOutput of
        Inl err \<Rightarrow> log_Printf (''Failed to parse JSON: '' @ err)
      | Inr data \<Rightarrow> mm_emit data)"

fun mm_scan :: "json_unmarshal \<Rightarrow> string list \<Rightarrow> mm_desc collected" where
  "mm_scan unmarshal [] = skip"
| "mm_scan unmarshal (line # lines) =
     andThen (mm_line unmarshal line) (mm_scan unmarshal lines)"

definition mm_Collect :: "json_unmarshal \<Rightarrow> cmd_result \<Rightarrow> mm_desc collected" where
  "mm_Collect unmarshal r =
     (case run_err r of
        Some err \<Rightarrow> log_Printf (''Failed to run macmon: '' @ err)
      | None \<Rightarrow> mm_scan unmarshal (ScanLines (stdout r)))"

section \<open>One collection cycle\<close>

text \<open>
  \<^verbatim>\<open>server.Start\<close> registers the powermetrics collector and then the vm_stat collector
  with the Prometheus registry; on every scrape the registry, a library, calls
  \<^verbatim>\<open>Collect\<close> of each registered collector. One cycle takes the page size and the
  result of the two external commands and keeps what the two collectors did side by side;
  a panic is recorded in the result of the collector that raised it.
\<close>

record cycle_input =
  getpagesize_result :: int
  powermetrics_run :: cmd_result
  vm_stat_run :: cmd_result

definition collect_cycle ::
  "float_parser \<Rightarrow> cycle_input \<Rightarrow> pm_desc collected \<times> vm_desc collected" where
  "collect_cycle pf i =
     (pm_Collect pf (powermetrics_run i),
      vm_Collect (getpagesize_result i) pf (vm_stat_run i))"

section \<open>A decimal instance of the float parser\<close>

text \<open>
  For evaluating the collectors on concrete text, \<open>ParseFloat_decimal\<close> reads the plain
  decimal numerals \<^verbatim>\<open>[+-]digits[.digits]\<close> (at least one digit), on which
  \<^verbatim>\<open>strconv.ParseFloat\<close> succeeds with that value, and rejects everything else. The
  theorems about the collectors hold for every parser; this one supplies the examples.
\<close>

definition digit_of :: "char \<Rightarrow> nat option" where
  "digit_of = map_of (zip ''0123456789'' [0, 1, 2, 3, 4, 5, 6, 7, 8, 9])"

fun digits_value :: "nat \<Rightarrow> string \<Rightarrow> nat option" where
  "digits_value acc [] = Some acc"
| "digits_value acc (c # cs) =
     (case digit_of c of None \<Rightarrow> None | Some d \<Rightarrow> digits_value (10 * acc + d) cs)"

definition unsigned_decimal :: "string \<Rightarrow> real option" where
  "unsigned_decimal s =
     (let ip = takeWhile (\<lambda>c. c \<noteq> CHR ''.'') s;
          fp = drop (Suc (length ip)) s
      in if ip = [] \<and> fp = [] then None
         else case (digits_value 0 ip, digits_value 0 fp) of
                (Some i, Some f) \<Rightarrow> Some (real i + real f / 10 ^ length fp)
              | _ \<Rightarrow> None)"

definition ParseFloat_decimal :: float_parser where
  "ParseFloat_decimal s =
     (case s of
        [] \<Rightarrow> None
      | c # r \<Rightarrow>
          if c = CHR ''-'' then map_option uminus (unsigned_decimal r)
          else if c = CHR ''+'' then unsigned_decimal r
          else unsigned_decimal s)"

section \<open>Vocabulary of the properties\<close>

text \<open>The samples of one descriptor among those sent, in the order they were sent.\<close>

definition samples_of :: "'d \<Rightarrow> 'd metric list \<Rightarrow> 'd metric list" where
  "samples_of d ms = filter (\<lambda>m. desc m = d) ms"

text \<open>The reading a line yields for a power metric: the line carries the marker and the
  unit, and the token after the first \<^verbatim>\<open>Power:\<close> parses.\<close>

definition power_reading :: "float_parser \<Rightarrow> string \<Rightarrow> string \<Rightarrow> real option" where
  "power_reading pf marker line =
     (if Contains line marker \<and> Contains line ''mW'' then power_loop pf (Fields line) else None)"

fun first_reading :: "float_parser \<Rightarrow> string \<Rightarrow> string list \<Rightarrow> real option" where
  "first_reading pf marker [] = None"
| "first_reading pf marker (line # lines) =
     (case power_reading pf marker line of
        Some v \<Rightarrow> Some v
      | None \<Rightarrow> first_reading pf marker lines)"

text \<open>The tokens that immediately follow an occurrence of the token \<open>w\<close>, in order.\<close>

fun followers :: "string \<Rightarrow> string list \<Rightarrow> string list" where
  "followers w (part # nxt # rest) = (if part = w then [nxt] else []) @ followers w (nxt # rest)"
| "followers w parts = []"

text \<open>The values of those tokens of a list that parse, in order.\<close>

definition parsed_tokens :: "float_parser \<Rightarrow> string list \<Rightarrow> real list" where
  "parsed_tokens pf ts = concat (map (\<lambda>t. case pf t of Some x \<Rightarrow> [x] | None \<Rightarrow> []) ts)"

definition frequency_markers :: "string \<Rightarrow> bool" where
  "frequency_markers line =
     (Contains line ''frequency:'' \<and> Contains line ''MHz'' \<and> Contains line ''CPU'')"

definition core_tokens :: "string \<Rightarrow> string list" where
  "core_tokens line = followers ''CPU'' (Fields line)"

definition frequency_readings :: "float_parser \<Rightarrow> string \<Rightarrow> real list" where
  "frequency_readings pf line = parsed_tokens pf (followers ''frequency:'' (Fields line))"

text \<open>The five blocks of an iteration that follow the two power blocks.\<close>

definition label_blocks :: "float_parser \<Rightarrow> string \<Rightarrow> pm_desc collected" where
  "label_blocks pf line =
     seq [frequency_block pf line,
          cpu_residency_block ''active residency:'' cpuActiveResidency pf line,
          cpu_residency_block ''idle residency:'' cpuIdleResidency pf line,
          gpu_residency_block ''GPU HW active residency:'' gpuActiveResidency pf line,
          gpu_residency_block ''GPU idle residency:'' gpuIdleResidency pf line]"

text \<open>
  A line on which the scanning loop of the powermetrics collector panics (whatever the
  flags are, since the power blocks pass no label value), and the lines of a capture that
  the loop runs on: all of them up to and including the first one on which it panics.
\<close>

definition panics_on :: "float_parser \<Rightarrow> string \<Rightarrow> bool" where
  "panics_on pf line =
     (panicked (snd (pm_line pf \<lparr>cpuPowerSent = False, gpuPowerSent = False\<rparr> line)) \<noteq> None)"

fun lines_run :: "float_parser \<Rightarrow> string list \<Rightarrow> string list" where
  "lines_run pf [] = []"
| "lines_run pf (line # lines) = line # (if panics_on pf line then [] else lines_run pf lines)"

text \<open>The map entry that one line of a vm_stat capture contributes (at most one key).\<close>

definition contribution :: "float_parser \<Rightarrow> string \<Rightarrow> (string \<rightharpoonup> real)" where
  "contribution pf line = vm_line pf Map.empty line"

text \<open>
  The line parser as the specification words it, for comparison with \<open>vm_line\<close>: split on
  the first colon, trim both sides, strip \<^emph>\<open>a\<close> trailing period from the value (one, as
  \<^verbatim>\<open>strings.TrimSuffix\<close> does), parse, and add the entry when the parse succeeds.
\<close>

definition spec_kv_line :: "float_parser \<Rightarrow> (string \<rightharpoonup> real) \<Rightarrow> string \<Rightarrow> (string \<rightharpoonup> real)" where
  "spec_kv_line pf valueMap line =
     (if CHR '':'' \<in> set line
      then (case pf (TrimSuffix (TrimSpace (tl (dropWhile (\<lambda>c. c \<noteq> CHR '':'') line))) ''.'') of
              None \<Rightarrow> valueMap
            | Some v \<Rightarrow> valueMap(TrimSpace (takeWhile (\<lambda>c. c \<noteq> CHR '':'') line) \<mapsto> v))
      else valueMap)"

text \<open>The scalar fields of a decoded macmon record with their descriptors, and the three
  (frequency, usage) arrays with theirs.\<close>

definition mm_scalars :: "(mm_desc \<times> (MacMonOutput \<Rightarrow> real)) list" where
  "mm_scalars =
     [(mm_allPower, AllPower), (mm_anePower, ANEPower), (mm_cpuPower, CPUPower),
      (mm_gpuPower, GPUPower), (mm_gpuRAMPower, GPURAMPower), (mm_ramPower, RAMPower),
      (mm_sysPower, SysPower), (mm_cpuTempAvg, Temp_CPUTempAvg),
      (mm_gpuTempAvg, Temp_GPUTempAvg),
      (mm_ramTotalBytes, \<lambda>data. real_of_int (Memory_RAMTotal data)),
      (mm_ramUsedBytes, \<lambda>data. real_of_int (Memory_RAMUsage data)),
      (mm_swapTotalBytes, \<lambda>data. real_of_int (Memory_SwapTotal data)),
      (mm_swapUsedBytes, \<lambda>data. real_of_int (Memory_SwapUsage data))]"

definition mm_pairs :: "(mm_desc \<times> mm_desc \<times> (MacMonOutput \<Rightarrow> real list)) list" where
  "mm_pairs =
     [(mm_ecpuFrequency, mm_ecpuUsagePercent, ECPUsage),
      (mm_pcpuFrequency, mm_pcpuUsagePercent, PCPUsage),
      (mm_gpuFrequency, mm_gpuUsagePercent, GPUUsage)]"

text \<open>
  A decoder for the examples: like \<^verbatim>\<open>json.Unmarshal\<close> it accepts the empty object
  \<^verbatim>\<open>{}\<close> and leaves the struct as it was given; the other lines of the examples are not
  JSON and are rejected.
\<close>

definition example_unmarshal :: json_unmarshal where
  "example_unmarshal line data =
     (if line = ''{}'' then Inr data else Inl ''invalid character'')"

section \<open>Auxiliary facts\<close>

lemmas eval_defs =
  pm_Collect_def pm_line_def cpu_power_block_def gpu_power_block_def frequency_block_def
  cpu_residency_block_def gpu_residency_block_def Fields_def isSpace_def TrimSuffix_def
  ParseFloat_decimal_def unsigned_decimal_def digit_of_def MustNewConstMetric_def
  validateLabelValues_def continuation_def send_def skip_def log_Printf_def andThen_def
  ScanLines_def dropCR_def MaxScanTokenSize_def samples_of_def power_reading_def
  frequency_markers_def core_tokens_def frequency_readings_def parsed_tokens_def
  panics_on_def

text \<open>Sends that cannot panic, and the three fields of a sequence.\<close>

lemma send_label_free:
  "L d = [] \<Longrightarrow>
   send (MustNewConstMetric L d t v []) =
     \<lparr>sent = [\<lparr>desc = d, valueType = t, val = v, labelValues = []\<rparr>], logged = [],
      panicked = None\<rparr>"
  by (simp add: send_def MustNewConstMetric_def validateLabelValues_def)

lemma send_one_label:
  "length (L d) = 1 \<Longrightarrow>
   send (MustNewConstMetric L d t v [l]) =
     (if ValidString l
      then \<lparr>sent = [\<lparr>desc = d, valueType = t, val = v, labelValues = [l]\<rparr>], logged = [],
            panicked = None\<rparr>
      else \<lparr>sent = [], logged = [], panicked = Some (InvalidUTF8 l)\<rparr>)"
  by (simp add: send_def MustNewConstMetric_def validateLabelValues_def)

lemma andThen_sel:
  "sent (andThen a b) = (if panicked a = None then sent a @ sent b else sent a)"
  "logged (andThen a b) = (if panicked a = None then logged a @ logged b else logged a)"
  "panicked (andThen a b) = (if panicked a = None then panicked b else panicked a)"
  by (auto simp: andThen_def split: option.splits)

lemma skip_sel: "sent skip = []" "logged skip = []" "panicked skip = None"
  by (simp_all add: skip_def)

lemma andThen_skip: "andThen skip b = b" "andThen a skip = a"
  by (simp_all add: andThen_def skip_def split: option.splits)

lemma seq_no_panic:
  "\<forall>a \<in> set pieces. panicked a = None \<Longrightarrow>
   panicked (seq pieces) = None \<and> sent (seq pieces) = concat (map sent pieces)
   \<and> logged (seq pieces) = concat (map logged pieces)"
  by (induction pieces) (simp_all add: skip_sel andThen_sel)

lemma samples_of_append: "samples_of d (xs @ ys) = samples_of d xs @ samples_of d ys"
  by (simp add: samples_of_def)

lemma samples_of_Nil: "samples_of d [] = []"
  by (simp add: samples_of_def)

lemma samples_of_Cons:
  "samples_of d (m # ms) = (if desc m = d then m # samples_of d ms else samples_of d ms)"
  by (simp add: samples_of_def)

lemma samples_of_send:
  "samples_of d (sent (send (MustNewConstMetric L d' t v ls))) =
     (if d' = d then sent (send (MustNewConstMetric L d' t v ls)) else [])"
  by (simp add: send_def MustNewConstMetric_def samples_of_def split: option.splits)

lemma samples_of_andThen_none:
  "samples_of d (sent a) = [] \<Longrightarrow> samples_of d (sent b) = [] \<Longrightarrow>
   samples_of d (sent (andThen a b)) = []"
  by (simp add: andThen_sel samples_of_append)

lemma samples_of_frequency_block:
  "d \<noteq> cpuFrequency \<Longrightarrow> samples_of d (sent (frequency_block pf line)) = []"
  by (simp add: frequency_block_def samples_of_send skip_sel samples_of_Nil split: prod.splits)

lemma samples_of_cpu_residency_block:
  "d \<noteq> d' \<Longrightarrow> samples_of d (sent (cpu_residency_block marker d' pf line)) = []"
  by (simp add: cpu_residency_block_def samples_of_send skip_sel samples_of_Nil split: prod.splits)

lemma samples_of_gpu_residency_block:
  "d \<noteq> d' \<Longrightarrow> samples_of d (sent (gpu_residency_block marker d' pf line)) = []"
  by (simp add: gpu_residency_block_def samples_of_send skip_sel samples_of_Nil
        split: option.splits)

lemma gpu_residency_block_no_panic:
  "pm_variableLabels d = [] \<Longrightarrow> panicked (gpu_residency_block marker d pf line) = None"
  by (simp add: gpu_residency_block_def send_label_free skip_sel split: option.splits)

lemma cpu_power_block_eq:
  "cpu_power_block pf fl line =
     (if cpuPowerSent fl then (fl, skip)
      else case power_reading pf ''CPU Power:'' line of
             None \<Rightarrow> (fl, skip)
           | Some v \<Rightarrow>
               (fl\<lparr>cpuPowerSent := True\<rparr>,
                \<lparr>sent = [\<lparr>desc = cpuPower, valueType = GaugeValue, val = v, labelValues = []\<rparr>],
                 logged = [], panicked = None\<rparr>))"
  by (simp add: cpu_power_block_def power_reading_def send_label_free split: option.splits)

lemma gpu_power_block_eq:
  "gpu_power_block pf fl line =
     (if gpuPowerSent fl then (fl, skip)
      else case power_reading pf ''GPU Power:'' line of
             None \<Rightarrow> (fl, skip)
           | Some v \<Rightarrow>
               (fl\<lparr>gpuPowerSent := True\<rparr>,
                \<lparr>sent = [\<lparr>desc = gpuPower, valueType = GaugeValue, val = v, labelValues = []\<rparr>],
                 logged = [], panicked = None\<rparr>))"
  by (simp add: gpu_power_block_def power_reading_def send_label_free split: option.splits)

lemma power_blocks_no_panic:
  "panicked (snd (cpu_power_block pf fl line)) = None"
  "panicked (snd (gpu_power_block pf fl line)) = None"
  by (simp_all add: cpu_power_block_eq gpu_power_block_eq skip_sel split: option.splits)

lemma power_blocks_samples:
  "samples_of cpuPower (sent (snd (cpu_power_block pf fl line))) =
     sent (snd (cpu_power_block pf fl line))"
  "samples_of gpuPower (sent (snd (cpu_power_block pf fl line))) = []"
  "samples_of gpuPower (sent (snd (gpu_power_block pf fl line))) =
     sent (snd (gpu_power_block pf fl line))"
  "samples_of cpuPower (sent (snd (gpu_power_block pf fl line))) = []"
  by (simp_all add: cpu_power_block_eq gpu_power_block_eq skip_sel samples_of_Nil
        samples_of_Cons split: option.splits)

lemma power_blocks_flags:
  "gpuPowerSent (fst (cpu_power_block pf fl line)) = gpuPowerSent fl"
  "cpuPowerSent (fst (gpu_power_block pf fl line)) = cpuPowerSent fl"
  by (simp_all add: cpu_power_block_eq gpu_power_block_eq split: option.splits)

lemma gpu_power_block_cong:
  "gpuPowerSent fl' = gpuPowerSent fl \<Longrightarrow>
   snd (gpu_power_block pf fl' line) = snd (gpu_power_block pf fl line)"
  "gpuPowerSent fl' = gpuPowerSent fl \<Longrightarrow>
   gpuPowerSent (fst (gpu_power_block pf fl' line)) =
     gpuPowerSent (fst (gpu_power_block pf fl line))"
  by (simp_all add: gpu_power_block_eq split: option.splits)

lemma pm_line_eq:
  "pm_line pf fl line =
     (fst (gpu_power_block pf (fst (cpu_power_block pf fl line)) line),
      andThen (snd (cpu_power_block pf fl line))
        (andThen (snd (gpu_power_block pf (fst (cpu_power_block pf fl line)) line))
           (label_blocks pf line)))"
  by (simp add: pm_line_def label_blocks_def split: prod.splits)

lemma label_blocks_power:
  "samples_of cpuPower (sent (label_blocks pf line)) = []"
  "samples_of gpuPower (sent (label_blocks pf line)) = []"
  by (simp_all add: label_blocks_def samples_of_andThen_none samples_of_frequency_block
        samples_of_cpu_residency_block samples_of_gpu_residency_block skip_sel samples_of_Nil)

text \<open>Whether an iteration panics does not depend on the flags.\<close>

lemma pm_line_panicked:
  "panicked (snd (pm_line pf fl line)) = panicked (label_blocks pf line)"
  by (simp add: pm_line_eq andThen_sel power_blocks_no_panic)

lemma panics_on_eq: "panics_on pf line = (panicked (label_blocks pf line) \<noteq> None)"
  by (simp add: panics_on_def pm_line_panicked)

lemma pm_line_cpuPower:
  "samples_of cpuPower (sent (snd (pm_line pf fl line))) = sent (snd (cpu_power_block pf fl line))"
  "cpuPowerSent (fst (pm_line pf fl line)) = cpuPowerSent (fst (cpu_power_block pf fl line))"
  by (simp_all add: pm_line_eq andThen_sel power_blocks_no_panic samples_of_append
        power_blocks_samples label_blocks_power power_blocks_flags)

lemma pm_line_gpuPower:
  "samples_of gpuPower (sent (snd (pm_line pf fl line))) =
     sent (snd (gpu_power_block pf fl line))"
  "gpuPowerSent (fst (pm_line pf fl line)) = gpuPowerSent (fst (gpu_power_block pf fl line))"
  using gpu_power_block_cong [of "fst (cpu_power_block pf fl line)" fl pf line]
  by (simp_all add: pm_line_eq andThen_sel power_blocks_no_panic samples_of_append
        power_blocks_samples label_blocks_power power_blocks_flags)

lemma power_blocks_other:
  "d \<noteq> cpuPower \<Longrightarrow> samples_of d (sent (snd (cpu_power_block pf fl line))) = []"
  "d \<noteq> gpuPower \<Longrightarrow> samples_of d (sent (snd (gpu_power_block pf fl line))) = []"
  by (simp_all add: cpu_power_block_eq gpu_power_block_eq skip_sel samples_of_Nil
        samples_of_Cons split: option.splits)

lemma frequency_block_own:
  "samples_of cpuFrequency (sent (frequency_block pf line)) = sent (frequency_block pf line)"
  by (simp add: frequency_block_def samples_of_send skip_sel samples_of_Nil split: prod.splits)

lemma label_blocks_cpuFrequency:
  "samples_of cpuFrequency (sent (label_blocks pf line)) = sent (frequency_block pf line)"
proof -
  have rest: "samples_of cpuFrequency (sent (seq
          [cpu_residency_block ''active residency:'' cpuActiveResidency pf line,
           cpu_residency_block ''idle residency:'' cpuIdleResidency pf line,
           gpu_residency_block ''GPU HW active residency:'' gpuActiveResidency pf line,
           gpu_residency_block ''GPU idle residency:'' gpuIdleResidency pf line])) = []"
    by (simp add: samples_of_andThen_none samples_of_cpu_residency_block
          samples_of_gpu_residency_block skip_sel samples_of_Nil)
  show ?thesis
    using rest by (simp add: label_blocks_def andThen_sel samples_of_append frequency_block_own)
qed

lemma pm_line_cpuFrequency:
  "samples_of cpuFrequency (sent (snd (pm_line pf fl line))) = sent (frequency_block pf line)"
  by (simp add: pm_line_eq andThen_sel power_blocks_no_panic samples_of_append
        power_blocks_other label_blocks_cpuFrequency)

lemma pm_line_panic_frequency:
  "panicked (frequency_block pf line) \<noteq> None \<Longrightarrow>
   panicked (snd (pm_line pf fl line)) = panicked (frequency_block pf line)"
  by (cases "panicked (frequency_block pf line)")
     (simp_all add: pm_line_panicked label_blocks_def andThen_sel)

text \<open>Once the flag of a power metric is set, the rest of the capture sends no sample of
  it; while it is unset, the first line run that yields a reading sends the only one.\<close>

lemma pm_scan_cpuPower:
  "samples_of cpuPower (sent (pm_scan pf fl lines)) =
     (if cpuPowerSent fl then []
      else case first_reading pf ''CPU Power:'' (lines_run pf lines) of
             None \<Rightarrow> []
           | Some v \<Rightarrow> [\<lparr>desc = cpuPower, valueType = GaugeValue, val = v, labelValues = []\<rparr>])"
proof (induction lines arbitrary: fl)
  case Nil
  show ?case by (simp add: skip_sel samples_of_Nil)
next
  case (Cons line lines)
  obtain fl' s where step: "pm_line pf fl line = (fl', s)"
    by (cases "pm_line pf fl line")
  have ms: "samples_of cpuPower (sent s) = sent (snd (cpu_power_block pf fl line))"
    using pm_line_cpuPower(1) [of pf fl line] step by simp
  have fl': "cpuPowerSent fl' = cpuPowerSent (fst (cpu_power_block pf fl line))"
    using pm_line_cpuPower(2) [of pf fl line] step by simp
  have pn: "(panicked s \<noteq> None) = panics_on pf line"
    using pm_line_panicked [of pf fl line] step by (simp add: panics_on_eq)
  show ?case
  proof (cases "panics_on pf line")
    case True
    then have "panicked s \<noteq> None" using pn by simp
    then show ?thesis
      using True ms
      by (simp add: step andThen_sel cpu_power_block_eq skip_sel split: option.splits)
  next
    case False
    then have "panicked s = None" using pn by simp
    then show ?thesis
      using False Cons.IH [of fl'] ms fl'
      by (simp add: step andThen_sel samples_of_append cpu_power_block_eq skip_sel
            split: option.splits)
  qed
qed

lemma pm_scan_gpuPower:
  "samples_of gpuPower (sent (pm_scan pf fl lines)) =
     (if gpuPowerSent fl then []
      else case first_reading pf ''GPU Power:'' (lines_run pf lines) of
             None \<Rightarrow> []
           | Some v \<Rightarrow> [\<lparr>desc = gpuPower, valueType = GaugeValue, val = v, labelValues = []\<rparr>])"
proof (induction lines arbitrary: fl)
  case Nil
  show ?case by (simp add: skip_sel samples_of_Nil)
next
  case (Cons line lines)
  obtain fl' s where step: "pm_line pf fl line = (fl', s)"
    by (cases "pm_line pf fl line")
  have ms: "samples_of gpuPower (sent s) = sent (snd (gpu_power_block pf fl line))"
    using pm_line_gpuPower(1) [of pf fl line] step by simp
  have fl': "gpuPowerSent fl' = gpuPowerSent (fst (gpu_power_block pf fl line))"
    using pm_line_gpuPower(2) [of pf fl line] step by simp
  have pn: "(panicked s \<noteq> None) = panics_on pf line"
    using pm_line_panicked [of pf fl line] step by (simp add: panics_on_eq)
  show ?case
  proof (cases "panics_on pf line")
    case True
    then have "panicked s \<noteq> None" using pn by simp
    then show ?thesis
      using True ms
      by (simp add: step andThen_sel gpu_power_block_eq skip_sel split: option.splits)
  next
    case False
    then have "panicked s = None" using pn by simp
    then show ?thesis
      using False Cons.IH [of fl'] ms fl'
      by (simp add: step andThen_sel samples_of_append gpu_power_block_eq skip_sel
            split: option.splits)
  qed
qed

lemma fields_from_nonempty: "t \<in> set (fields_from cur cs) \<Longrightarrow> t \<noteq> []"
  by (induction cs arbitrary: cur) (auto split: if_splits)

lemma Fields_nonempty: "t \<in> set (Fields s) \<Longrightarrow> t \<noteq> []"
  unfolding Fields_def by (rule fields_from_nonempty)

lemma followers_subset: "set (followers w parts) \<subseteq> set parts"
  by (induction w parts rule: followers.induct) auto

lemma last_follower_in_parts:
  "followers w parts \<noteq> [] \<Longrightarrow> last (followers w parts) \<in> set parts"
  using followers_subset [of w parts] last_in_set [of "followers w parts"] by blast

lemma parsed_tokens_append:
  "parsed_tokens pf (xs @ ys) = parsed_tokens pf xs @ parsed_tokens pf ys"
  by (simp add: parsed_tokens_def)

text \<open>The two variables of the frequency loop in closed form: the last token after a
  \<^verbatim>\<open>CPU\<close>, and the last parsed token after a \<^verbatim>\<open>frequency:\<close>, in Hz.\<close>

lemma freq_loop_closed:
  "freq_loop pf parts (c, v) =
     (if followers ''CPU'' parts = [] then c else last (followers ''CPU'' parts),
      if parsed_tokens pf (followers ''frequency:'' parts) = [] then v
      else last (parsed_tokens pf (followers ''frequency:'' parts)) * 1000000)"
proof (induction parts arbitrary: c v rule: induct_list012)
  case 1
  show ?case by (simp add: parsed_tokens_def)
next
  case (2 part)
  show ?case by (simp add: parsed_tokens_def)
next
  case (3 part nxt rest)
  note IH = this(2)
  show ?case
    by (simp add: IH parsed_tokens_append last_append)
       (simp add: parsed_tokens_def split: option.splits)
qed

lemma core_token_nonempty: "core_tokens line \<noteq> [] \<Longrightarrow> last (core_tokens line) \<noteq> []"
  using followers_subset [of "''CPU''" "Fields line"] Fields_nonempty [of _ line] last_in_set
  unfolding core_tokens_def by blast

lemma frequency_block_closed:
  "frequency_block pf line =
     (if frequency_markers line \<and> core_tokens line \<noteq> [] \<and> frequency_readings pf line \<noteq> []
         \<and> 0 < last (frequency_readings pf line)
      then (if ValidString (''cpu'' @ last (core_tokens line))
            then \<lparr>sent = [\<lparr>desc = cpuFrequency, valueType = GaugeValue,
                           val = last (frequency_readings pf line) * 1000000,
                           labelValues = [''cpu'' @ last (core_tokens line)]\<rparr>],
                  logged = [], panicked = None\<rparr>
            else \<lparr>sent = [], logged = [],
                  panicked = Some (InvalidUTF8 (''cpu'' @ last (core_tokens line)))\<rparr>)
      else \<lparr>sent = [], logged = [], panicked = None\<rparr>)"
  using core_token_nonempty [of line]
  by (simp add: frequency_block_def freq_loop_closed frequency_markers_def
        core_tokens_def frequency_readings_def send_one_label skip_def)

lemma residency_loop_core:
  "fst (residency_loop pf parts (c, v)) =
     (if followers ''CPU'' parts = [] then c else last (followers ''CPU'' parts))"
proof (induction parts arbitrary: c v rule: induct_list012)
  case 1
  show ?case by simp
next
  case (2 part)
  show ?case by simp
next
  case (3 part nxt rest)
  note IH = this(2)
  show ?case by (simp add: IH last_append)
qed

text \<open>A panic needs a token that is not valid UTF-8.\<close>

lemma ValidString_cpu: "ValidString (''cpu'' @ s) = ValidString s"
  by simp

lemma fst_freq_loop:
  "fst (freq_loop pf parts (c, v)) = c \<or> fst (freq_loop pf parts (c, v)) \<in> set parts"
  using last_follower_in_parts [of "''CPU''" parts] by (simp add: freq_loop_closed)

lemma fst_residency_loop:
  "fst (residency_loop pf parts (c, v)) = c \<or> fst (residency_loop pf parts (c, v)) \<in> set parts"
  using last_follower_in_parts [of "''CPU''" parts] by (simp add: residency_loop_core)

lemma frequency_block_panic:
  "panicked (frequency_block pf line) \<noteq> None \<Longrightarrow> \<exists>t \<in> set (Fields line). \<not> ValidString t"
  using fst_freq_loop [of pf "Fields line" "''''" 0]
  by (auto simp: frequency_block_def send_one_label skip_sel split: prod.splits if_splits)

lemma cpu_residency_block_panic:
  "length (pm_variableLabels d) = 1 \<Longrightarrow>
   panicked (cpu_residency_block marker d pf line) \<noteq> None \<Longrightarrow>
   \<exists>t \<in> set (Fields line). \<not> ValidString t"
  using fst_residency_loop [of pf "Fields line" "''''" 0]
  by (auto simp: cpu_residency_block_def send_one_label skip_sel split: prod.splits if_splits)

lemma panics_on_invalid_token:
  "panics_on pf line \<Longrightarrow> \<exists>t \<in> set (Fields line). \<not> ValidString t"
  using frequency_block_panic [of pf line]
    cpu_residency_block_panic [of cpuActiveResidency "''active residency:''" pf line]
    cpu_residency_block_panic [of cpuIdleResidency "''idle residency:''" pf line]
    gpu_residency_block_no_panic [of gpuActiveResidency "''GPU HW active residency:''" pf line]
    gpu_residency_block_no_panic [of gpuIdleResidency "''GPU idle residency:''" pf line]
  by (simp add: panics_on_eq label_blocks_def andThen_sel skip_sel split: if_splits)

lemma lines_run_all:
  "\<forall>line \<in> set lines. \<forall>t \<in> set (Fields line). ValidString t \<Longrightarrow> lines_run pf lines = lines"
  using panics_on_invalid_token [of pf] by (induction lines) auto

lemma first_reading_lines_run:
  "first_reading pf marker (lines_run pf lines) = Some v \<Longrightarrow>
   first_reading pf marker lines = Some v"
  by (induction lines) (auto split: option.splits if_splits)

section \<open>Power samples: one per metric and capture\<close>

text \<open>
  Claim C1, as the code has it. In every collection cycle the powermetrics collector sends
  at most one \<open>cpuPower\<close> and at most one \<open>gpuPower\<close> sample. The flag of a metric is set
  only when a sample has been sent, so the value is the reading of the first line that
  carries the marker and the unit \<^emph>\<open>and\<close> whose token after the first \<^verbatim>\<open>Power:\<close>
  parses; every later line is ignored for that metric. When \<^verbatim>\<open>cmd.Run\<close> fails
  nothing is sent. The lines that count are those the loop runs on: a line on which a
  per-core block panics is the last one. A capture whose tokens are all valid UTF-8 is
  run to its end, and the value of a sample that is sent is always the first reading of
  the whole capture.
\<close>

theorem C1_power_sample_is_first_parsed_reading:
  "samples_of cpuPower (sent (pm_Collect pf r)) =
     (case run_err r of
        Some err \<Rightarrow> []
      | None \<Rightarrow>
          (case first_reading pf ''CPU Power:'' (lines_run pf (ScanLines (stdout r))) of
             None \<Rightarrow> []
           | Some v \<Rightarrow>
               [\<lparr>desc = cpuPower, valueType = GaugeValue, val = v, labelValues = []\<rparr>]))
   \<and> samples_of gpuPower (sent (pm_Collect pf r)) =
     (case run_err r of
        Some err \<Rightarrow> []
      | None \<Rightarrow>
          (case first_reading pf ''GPU Power:'' (lines_run pf (ScanLines (stdout r))) of
             None \<Rightarrow> []
           | Some v \<Rightarrow>
               [\<lparr>desc = gpuPower, valueType = GaugeValue, val = v, labelValues = []\<rparr>]))
   \<and> length (samples_of cpuPower (sent (pm_Collect pf r))) \<le> 1
   \<and> length (samples_of gpuPower (sent (pm_Collect pf r))) \<le> 1
   \<and> ((\<forall>line \<in> set lines. \<forall>t \<in> set (Fields line). ValidString t) \<longrightarrow>
        lines_run pf lines = lines)
   \<and> (first_reading pf marker (lines_run pf lines) = Some x \<longrightarrow>
        first_reading pf marker lines = Some x)"
  using lines_run_all [of lines pf] first_reading_lines_run [of pf marker lines x]
  by (simp add: pm_Collect_def pm_scan_cpuPower pm_scan_gpuPower samples_of_Nil log_Printf_def
        split: option.splits)

theorem C1_power_sample_witness:
  "lines_run ParseFloat_decimal [''CPU Power: 1339 mW'', ''GPU Power: 6 mW'', ''CPU Power: 7 mW'']
     = [''CPU Power: 1339 mW'', ''GPU Power: 6 mW'', ''CPU Power: 7 mW'']
   \<and> samples_of cpuPower (sent (pm_Collect ParseFloat_decimal
      \<lparr>run_err = None,
       stdout = ''CPU Power: 1339 mW'' @ [CHR 0x0A] @ ''GPU Power: 6 mW'' @ [CHR 0x0A]
                @ ''CPU Power: 7 mW'' @ [CHR 0x0A]\<rparr>))
     = [\<lparr>desc = cpuPower, valueType = GaugeValue, val = 1339, labelValues = []\<rparr>]
   \<and> samples_of gpuPower (sent (pm_Collect ParseFloat_decimal
      \<lparr>run_err = None,
       stdout = ''CPU Power: 1339 mW'' @ [CHR 0x0A] @ ''GPU Power: 6 mW'' @ [CHR 0x0A]
                @ ''CPU Power: 7 mW'' @ [CHR 0x0A]\<rparr>))
     = [\<lparr>desc = gpuPower, valueType = GaugeValue, val = 6, labelValues = []\<rparr>]"
  using C1_power_sample_is_first_parsed_reading [of ParseFloat_decimal
      "\<lparr>run_err = None,
        stdout = ''CPU Power: 1339 mW'' @ [CHR 0x0A] @ ''GPU Power: 6 mW'' @ [CHR 0x0A]
                 @ ''CPU Power: 7 mW'' @ [CHR 0x0A]\<rparr>"]
  by (simp add: eval_defs)

text \<open>
  The claim as stated fails on a capture whose first line with marker and unit has an
  unparsable power token: both lines below carry \<^verbatim>\<open>CPU Power:\<close> and \<^verbatim>\<open>mW\<close>, the first
  yields no reading, and the one sample sent has the value of the second line.
\<close>

theorem C1_first_matching_line_counterexample:
  "Contains ''CPU Power: abc mW'' ''CPU Power:'' \<and> Contains ''CPU Power: abc mW'' ''mW''
   \<and> Contains ''CPU Power: 5 mW'' ''CPU Power:'' \<and> Contains ''CPU Power: 5 mW'' ''mW''
   \<and> power_loop ParseFloat_decimal (Fields ''CPU Power: abc mW'') = None
   \<and> pm_Collect ParseFloat_decimal
        \<lparr>run_err = None,
         stdout = ''CPU Power: abc mW'' @ [CHR 0x0A] @ ''CPU Power: 5 mW'' @ [CHR 0x0A]\<rparr>
     = \<lparr>sent = [\<lparr>desc = cpuPower, valueType = GaugeValue, val = 5, labelValues = []\<rparr>],
        logged = [], panicked = None\<rparr>"
  by (simp add: eval_defs)

section \<open>Unparsable tokens\<close>

text \<open>
  Claim C3 on the per-core residency blocks. The token after \<^verbatim>\<open>residency:\<close> in the
  first line below is \<^verbatim>\<open>abc%\<close>; \<^verbatim>\<open>ParseFloat\<close> rejects \<^verbatim>\<open>abc\<close>, the variable
  \<^verbatim>\<open>residencyValue\<close> keeps its zero value, the test \<^verbatim>\<open>residencyValue >= 0\<close> passes and
  a sample with value 0 is sent. The GPU residency block, which sends only when the parse
  succeeded, sends nothing for the same token.
\<close>

theorem C3_unparsable_residency_sent_as_zero:
  "ParseFloat_decimal (TrimSuffix ''abc%'' ''%'') = None
   \<and> pm_line ParseFloat_decimal \<lparr>cpuPowerSent = False, gpuPowerSent = False\<rparr>
        ''CPU 0 idle residency: abc%''
     = (\<lparr>cpuPowerSent = False, gpuPowerSent = False\<rparr>,
        \<lparr>sent = [\<lparr>desc = cpuIdleResidency, valueType = GaugeValue, val = 0,
                   labelValues = [''cpu0'']\<rparr>],
         logged = [], panicked = None\<rparr>)
   \<and> pm_line ParseFloat_decimal \<lparr>cpuPowerSent = False, gpuPowerSent = False\<rparr>
        ''GPU idle residency: abc%''
     = (\<lparr>cpuPowerSent = False, gpuPowerSent = False\<rparr>,
        \<lparr>sent = [], logged = [], panicked = None\<rparr>)"
  by (simp add: eval_defs)

section \<open>Per-core frequency samples\<close>

text \<open>
  Claim C4, as the code has it: the frequency block in closed form. On a line that carries
  the three markers, when some token follows a token \<^verbatim>\<open>CPU\<close> and some token after a
  \<^verbatim>\<open>frequency:\<close> parses, the last such value being strictly positive, the block sends
  exactly one gauge of \<open>cpuFrequency\<close>: its value is that last parsed value multiplied by
  1000000 and its one label is \<^verbatim>\<open>cpu\<close> followed by the last token after a \<^verbatim>\<open>CPU\<close>,
  whatever that token is; when this label is not valid UTF-8 the constructor panics
  instead. On every other line the block sends nothing. In particular a line with a
  single core token and a single frequency token that parses to a strictly positive
  value, as \<^verbatim>\<open>CPU 3 frequency: 2400 MHz\<close>, sends that value in Hz under the label of
  that core token. What the block sends is what the iteration of the scanning loop sends
  for this descriptor, whatever the flags are.
\<close>

theorem C4_frequency_sample_closed_form:
  "frequency_block pf line =
     (if frequency_markers line \<and> core_tokens line \<noteq> [] \<and> frequency_readings pf line \<noteq> []
         \<and> 0 < last (frequency_readings pf line)
      then (if ValidString (''cpu'' @ last (core_tokens line))
            then \<lparr>sent = [\<lparr>desc = cpuFrequency, valueType = GaugeValue,
                           val = last (frequency_readings pf line) * 1000000,
                           labelValues = [''cpu'' @ last (core_tokens line)]\<rparr>],
                  logged = [], panicked = None\<rparr>
            else \<lparr>sent = [], logged = [],
                  panicked = Some (InvalidUTF8 (''cpu'' @ last (core_tokens line)))\<rparr>)
      else \<lparr>sent = [], logged = [], panicked = None\<rparr>)
   \<and> (frequency_markers line \<and> core_tokens line = [core]
        \<and> followers ''frequency:'' (Fields line) = [freqStr] \<and> pf freqStr = Some freq
        \<and> 0 < freq \<and> ValidString (''cpu'' @ core) \<longrightarrow>
        sent (frequency_block pf line) =
          [\<lparr>desc = cpuFrequency, valueType = GaugeValue, val = freq * 1000000,
            labelValues = [''cpu'' @ core]\<rparr>])
   \<and> samples_of cpuFrequency (sent (snd (pm_line pf fl line))) = sent (frequency_block pf line)"
  by (simp add: frequency_block_closed frequency_readings_def parsed_tokens_def
        pm_line_cpuFrequency)

theorem C4_frequency_sample_witness:
  "frequency_markers ''CPU 3 frequency: 2400 MHz''
   \<and> core_tokens ''CPU 3 frequency: 2400 MHz'' = [''3'']
   \<and> followers ''frequency:'' (Fields ''CPU 3 frequency: 2400 MHz'') = [''2400'']
   \<and> ParseFloat_decimal ''2400'' = Some 2400
   \<and> ValidString ''cpu3''
   \<and> sent (frequency_block ParseFloat_decimal ''CPU 3 frequency: 2400 MHz'')
       = [\<lparr>desc = cpuFrequency, valueType = GaugeValue, val = 2400000000,
           labelValues = [''cpu3'']\<rparr>]"
  using C4_frequency_sample_closed_form [of ParseFloat_decimal "''CPU 3 frequency: 2400 MHz''"
          "''3''" "''2400''" 2400]
  by (simp add: eval_defs)

text \<open>
  The claim as stated takes the label from the integer token immediately after \<^verbatim>\<open>CPU\<close>
  and the value from the parsed MHz value. The label is taken from a token that is not an
  integer, and from the second of two core tokens; the value is taken from the second of
  two frequency tokens.
\<close>

theorem C4_label_and_value_counterexample:
  "core_tokens ''CPU x frequency: 2400 MHz'' = [''x'']
   \<and> sent (frequency_block ParseFloat_decimal ''CPU x frequency: 2400 MHz'')
       = [\<lparr>desc = cpuFrequency, valueType = GaugeValue, val = 2400000000,
           labelValues = [''cpux'']\<rparr>]
   \<and> core_tokens ''CPU 1 CPU 2 frequency: 2400 MHz'' = [''1'', ''2'']
   \<and> sent (frequency_block ParseFloat_decimal ''CPU 1 CPU 2 frequency: 2400 MHz'')
       = [\<lparr>desc = cpuFrequency, valueType = GaugeValue, val = 2400000000,
           labelValues = [''cpu2'']\<rparr>]
   \<and> frequency_readings ParseFloat_decimal ''CPU 0 frequency: 1000 frequency: 2400 MHz''
       = [1000, 2400]
   \<and> sent (frequency_block ParseFloat_decimal ''CPU 0 frequency: 1000 frequency: 2400 MHz'')
       = [\<lparr>desc = cpuFrequency, valueType = GaugeValue, val = 2400000000,
           labelValues = [''cpu0'']\<rparr>]"
  by (simp add: eval_defs)

text \<open>
  Claim C10, as the code has it. On a line that carries the three frequency markers a
  sample is sent exactly when some token follows a token \<^verbatim>\<open>CPU\<close>, some token after a
  \<^verbatim>\<open>frequency:\<close> parses, the last such token that parses is strictly positive, and the
  label built from the last core token is valid UTF-8; when all but the last of these
  hold, \<^verbatim>\<open>MustNewConstMetric\<close> panics and nothing is sent. A line with a single
  \<^verbatim>\<open>frequency:\<close> token whose successor is \<open>t\<close> therefore sends a sample exactly when a
  token follows \<^verbatim>\<open>CPU\<close>, \<open>t\<close> parses to a strictly positive value and the label is
  valid UTF-8. A panic of the block sends nothing and is the panic of the iteration.
\<close>

theorem C10_frequency_sample_iff:
  "frequency_markers line \<Longrightarrow>
     (sent (frequency_block pf line) \<noteq> []) =
       (core_tokens line \<noteq> [] \<and> frequency_readings pf line \<noteq> []
        \<and> 0 < last (frequency_readings pf line)
        \<and> ValidString (''cpu'' @ last (core_tokens line)))
     \<and> (panicked (frequency_block pf line) \<noteq> None) =
       (core_tokens line \<noteq> [] \<and> frequency_readings pf line \<noteq> []
        \<and> 0 < last (frequency_readings pf line)
        \<and> \<not> ValidString (''cpu'' @ last (core_tokens line)))
     \<and> (followers ''frequency:'' (Fields line) = [t] \<longrightarrow>
          (sent (frequency_block pf line) \<noteq> []) =
            (core_tokens line \<noteq> [] \<and> (\<exists>freq. pf t = Some freq \<and> 0 < freq)
             \<and> ValidString (''cpu'' @ last (core_tokens line))))
     \<and> (panicked (frequency_block pf line) \<noteq> None \<longrightarrow>
          sent (frequency_block pf line) = []
          \<and> panicked (snd (pm_line pf fl line)) = panicked (frequency_block pf line))"
  using pm_line_panic_frequency [of pf line fl]
  by (auto simp: frequency_block_closed frequency_readings_def parsed_tokens_def
        split: option.splits)

theorem C10_frequency_sample_witness:
  "frequency_markers ''CPU 3 frequency: 2400 MHz''
   \<and> followers ''frequency:'' (Fields ''CPU 3 frequency: 2400 MHz'') = [''2400'']
   \<and> ParseFloat_decimal ''2400'' = Some 2400
   \<and> sent (frequency_block ParseFloat_decimal ''CPU 3 frequency: 2400 MHz'') \<noteq> []
   \<and> panicked (frequency_block ParseFloat_decimal ''CPU 3 frequency: 2400 MHz'') = None
   \<and> frequency_markers ''CPU 3 frequency: 0 MHz''
   \<and> sent (frequency_block ParseFloat_decimal ''CPU 3 frequency: 0 MHz'') = []"
  using C10_frequency_sample_iff [of "''CPU 3 frequency: 2400 MHz''" ParseFloat_decimal "''2400''"]
        C10_frequency_sample_iff [of "''CPU 3 frequency: 0 MHz''" ParseFloat_decimal "''0''"]
  by (simp add: eval_defs)

text \<open>
  The claim as stated fails on lines with more than one \<^verbatim>\<open>frequency:\<close> token, whichever
  of them is taken for "the token after \<^verbatim>\<open>frequency:\<close>": a line that reports a frequency
  of 0 first sends a sample; a line with a strictly positive frequency token after
  \<^verbatim>\<open>frequency:\<close> and a token after \<^verbatim>\<open>CPU\<close> sends none; a line whose last frequency
  token is unparsable sends a sample. It also fails on a line whose core token is the
  byte 0xFF: a token follows \<^verbatim>\<open>CPU\<close>, the frequency is strictly positive, and the block
  panics without sending.
\<close>

theorem C10_several_frequency_tokens_counterexample:
  "followers ''frequency:'' (Fields ''CPU 0 frequency: 0 frequency: 2400 MHz'') = [''0'', ''2400'']
   \<and> frequency_block ParseFloat_decimal ''CPU 0 frequency: 0 frequency: 2400 MHz''
       = \<lparr>sent = [\<lparr>desc = cpuFrequency, valueType = GaugeValue, val = 2400000000,
                    labelValues = [''cpu0'']\<rparr>],
          logged = [], panicked = None\<rparr>
   \<and> followers ''frequency:'' (Fields ''CPU 0 frequency: 2400 frequency: 0 MHz'') = [''2400'', ''0'']
   \<and> core_tokens ''CPU 0 frequency: 2400 frequency: 0 MHz'' = [''0'']
   \<and> frequency_block ParseFloat_decimal ''CPU 0 frequency: 2400 frequency: 0 MHz''
       = \<lparr>sent = [], logged = [], panicked = None\<rparr>
   \<and> followers ''frequency:'' (Fields ''CPU 0 frequency: 2400 frequency: abc MHz'') = [''2400'', ''abc'']
   \<and> ParseFloat_decimal ''abc'' = None
   \<and> frequency_block ParseFloat_decimal ''CPU 0 frequency: 2400 frequency: abc MHz''
       = \<lparr>sent = [\<lparr>desc = cpuFrequency, valueType = GaugeValue, val = 2400000000,
                    labelValues = [''cpu0'']\<rparr>],
          logged = [], panicked = None\<rparr>
   \<and> core_tokens (''CPU '' @ [CHR 0xFF] @ '' frequency: 2400 MHz'') = [[CHR 0xFF]]
   \<and> frequency_block ParseFloat_decimal (''CPU '' @ [CHR 0xFF] @ '' frequency: 2400 MHz'')
       = \<lparr>sent = [], logged = [], panicked = Some (InvalidUTF8 (''cpu'' @ [CHR 0xFF]))\<rparr>"
  by (simp add: eval_defs)

section \<open>The line parser of the vm_stat collector\<close>

lemmas vm_eval_defs =
  vm_line_def SplitN_colon_2_def TrimSpace_def TrimRight_def TrimSuffix_def isSpace_def
  ParseFloat_decimal_def unsigned_decimal_def digit_of_def spec_kv_line_def contribution_def

lemma SplitN_no_colon: "CHR '':'' \<notin> set line \<Longrightarrow> SplitN_colon_2 line = [line]"
  by (simp add: SplitN_colon_2_def)

lemma takeWhile_before: "c \<notin> set k \<Longrightarrow> takeWhile (\<lambda>x. x \<noteq> c) (k @ c # v) = k"
  by (induction k) auto

lemma dropWhile_before: "c \<notin> set k \<Longrightarrow> dropWhile (\<lambda>x. x \<noteq> c) (k @ c # v) = c # v"
  by (induction k) auto

lemma SplitN_colon: "CHR '':'' \<notin> set k \<Longrightarrow> SplitN_colon_2 (k @ CHR '':'' # v) = [k, v]"
  by (simp add: SplitN_colon_2_def takeWhile_before dropWhile_before)

lemma vm_line_no_colon: "CHR '':'' \<notin> set line \<Longrightarrow> vm_line pf m line = m"
  by (simp add: vm_line_def SplitN_no_colon)

lemma vm_line_colon:
  "CHR '':'' \<notin> set k \<Longrightarrow>
   vm_line pf m (k @ CHR '':'' # v) =
     (case pf (TrimRight (TrimSpace v) ''.'') of None \<Rightarrow> m | Some x \<Rightarrow> m(TrimSpace k \<mapsto> x))"
  by (simp add: vm_line_def SplitN_colon)

lemma in_dropWhile: "c \<in> set xs \<Longrightarrow> \<not> P c \<Longrightarrow> c \<in> set (dropWhile P xs)"
  by (induction xs) auto

lemma colon_survives_trimming:
  "CHR '':'' \<in> set v \<Longrightarrow> CHR '':'' \<in> set (TrimRight (TrimSpace v) ''.'')"
  by (simp add: TrimRight_def TrimSpace_def in_dropWhile isSpace_def)

lemma vm_line_contribution: "vm_line pf m line = m ++ contribution pf line"
  by (simp add: contribution_def vm_line_def Let_def split: option.splits)

lemma vm_scan_append: "vm_scan pf m (ls @ ls') = vm_scan pf (vm_scan pf m ls) ls'"
  by (induction ls arbitrary: m) simp_all

lemma vm_scan_silent:
  "\<forall>l \<in> set ls. contribution pf l key = None \<Longrightarrow> vm_scan pf m ls key = m key"
  by (induction ls arbitrary: m) (simp_all add: vm_line_contribution map_add_def)

lemma vm_scan_last_wins:
  "contribution pf line key = Some x \<Longrightarrow> \<forall>l \<in> set ls'. contribution pf l key = None \<Longrightarrow>
   vm_scan pf m (ls @ line # ls') key = Some x"
  by (simp add: vm_scan_append vm_scan_silent vm_line_contribution map_add_def)

lemma digits_value_chars:
  "digits_value acc s = Some n \<Longrightarrow> c \<in> set s \<Longrightarrow> digit_of c \<noteq> None"
  by (induction s arbitrary: acc) (auto split: option.splits)

lemma colon_not_digit: "digit_of (CHR '':'') = None"
  by (simp add: digit_of_def)

lemma digits_value_colon: "CHR '':'' \<in> set s \<Longrightarrow> digits_value acc s = None"
  using digits_value_chars [of acc s _ "CHR '':''"] colon_not_digit by (cases "digits_value acc s") auto

lemma split_at_dot:
  "c \<in> set s \<Longrightarrow> c \<noteq> CHR ''.'' \<Longrightarrow>
   c \<in> set (takeWhile (\<lambda>c. c \<noteq> CHR ''.'') s)
   \<or> c \<in> set (drop (Suc (length (takeWhile (\<lambda>c. c \<noteq> CHR ''.'') s))) s)"
  by (induction s) auto

lemma unsigned_decimal_colon: "CHR '':'' \<in> set s \<Longrightarrow> unsigned_decimal s = None"
  using split_at_dot [of "CHR '':''" s]
  by (auto simp: unsigned_decimal_def Let_def digits_value_colon split: option.splits)

lemma ParseFloat_decimal_colon: "CHR '':'' \<in> set s \<Longrightarrow> ParseFloat_decimal s = None"
  by (cases s) (auto simp: ParseFloat_decimal_def unsigned_decimal_colon)

lemma dropWhile_replicate_same: "P c \<Longrightarrow> dropWhile P (replicate n c @ xs) = dropWhile P xs"
  by (induction n) simp_all

lemma TrimRight_periods:
  "s = [] \<or> last s \<noteq> CHR ''.'' \<Longrightarrow> TrimRight (s @ replicate n (CHR ''.'')) ''.'' = s"
  by (cases s rule: rev_cases) (simp_all add: TrimRight_def dropWhile_replicate_same)

text \<open>
  Claim C2, as the code has it. A line without a colon adds nothing. A line is otherwise
  split at its first colon into \<open>k\<close> and \<open>v\<close>; the value text is \<open>v\<close> trimmed of white
  space and then of \<^emph>\<open>every\<close> trailing period (\<^verbatim>\<open>strings.TrimRight\<close>), and the entry
  (trimmed \<open>k\<close>, value) is added exactly when that text parses. A parser that, like
  \<^verbatim>\<open>strconv.ParseFloat\<close>, rejects every text with a colon in it gives no entry for a
  line with two or more colons. Of several lines that contribute the same key, the last
  one's value is retained.
\<close>

theorem C2_line_key_value_parser:
  "(CHR '':'' \<notin> set line \<longrightarrow> vm_line pf m line = m)
   \<and> (CHR '':'' \<notin> set k \<longrightarrow>
        vm_line pf m (k @ '':'' @ v) =
          (case pf (TrimRight (TrimSpace v) ''.'') of
             None \<Rightarrow> m
           | Some x \<Rightarrow> m(TrimSpace k \<mapsto> x)))
   \<and> (s = [] \<or> last s \<noteq> CHR ''.'' \<longrightarrow> TrimRight (s @ replicate n (CHR ''.'')) ''.'' = s)
   \<and> ((\<forall>t. CHR '':'' \<in> set t \<longrightarrow> pf t = None) \<longrightarrow> CHR '':'' \<notin> set k \<longrightarrow> CHR '':'' \<in> set v \<longrightarrow>
        vm_line pf m (k @ '':'' @ v) = m)
   \<and> (contribution pf l key = Some y \<longrightarrow> (\<forall>l' \<in> set ls2. contribution pf l' key = None) \<longrightarrow>
        vm_scan pf m (ls1 @ l # ls2) key = Some y)"
proof (intro conjI impI)
  assume "CHR '':'' \<notin> set line"
  then show "vm_line pf m line = m" by (rule vm_line_no_colon)
next
  assume "CHR '':'' \<notin> set k"
  then show "vm_line pf m (k @ '':'' @ v) =
          (case pf (TrimRight (TrimSpace v) ''.'') of
             None \<Rightarrow> m
           | Some x \<Rightarrow> m(TrimSpace k \<mapsto> x))"
    by (simp add: vm_line_colon)
next
  assume "s = [] \<or> last s \<noteq> CHR ''.''"
  then show "TrimRight (s @ replicate n (CHR ''.'')) ''.'' = s" by (rule TrimRight_periods)
next
  assume rej: "\<forall>t. CHR '':'' \<in> set t \<longrightarrow> pf t = None"
    and k: "CHR '':'' \<notin> set k" and v: "CHR '':'' \<in> set v"
  have "pf (TrimRight (TrimSpace v) ''.'') = None"
    using rej colon_survives_trimming [OF v] by blast
  then show "vm_line pf m (k @ '':'' @ v) = m"
    using k by (simp add: vm_line_colon)
next
  assume "contribution pf l key = Some y" and "\<forall>l' \<in> set ls2. contribution pf l' key = None"
  then show "vm_scan pf m (ls1 @ l # ls2) key = Some y" by (rule vm_scan_last_wins)
qed

theorem C2_line_key_value_parser_witness:
  "CHR '':'' \<notin> set ''Mach Virtual Memory Statistics''
   \<and> vm_line ParseFloat_decimal Map.empty ''Mach Virtual Memory Statistics'' = Map.empty
   \<and> vm_line ParseFloat_decimal Map.empty ''Pages free:     5123.'' = [''Pages free'' \<mapsto> 5123]
   \<and> TrimRight ''5123...'' ''.'' = ''5123''
   \<and> vm_line ParseFloat_decimal Map.empty ''Pages free: 1: 2.'' = Map.empty
   \<and> contribution ParseFloat_decimal ''Pages free: 7.'' ''Pages free'' = Some 7
   \<and> contribution ParseFloat_decimal ''Pages active: 3.'' ''Pages free'' = None
   \<and> vm_scan ParseFloat_decimal Map.empty
        [''Pages free: 5.'', ''Pages free: 7.'', ''Pages active: 3.''] ''Pages free'' = Some 7"
proof -
  note W = C2_line_key_value_parser [where pf = ParseFloat_decimal and m = Map.empty
      and line = "''Mach Virtual Memory Statistics''"
      and k = "''Pages free''" and v = "''     5123.''"
      and s = "''5123''" and n = "Suc (Suc (Suc 0))"
      and l = "''Pages free: 7.''" and key = "''Pages free''" and y = 7
      and ?ls1.0 = "[''Pages free: 5.'']" and ?ls2.0 = "[''Pages active: 3.'']"]
  note W' = C2_line_key_value_parser [where pf = ParseFloat_decimal and m = Map.empty
      and line = "''Mach Virtual Memory Statistics''"
      and k = "''Pages free''" and v = "'' 1: 2.''"
      and s = "''5123''" and n = "Suc (Suc (Suc 0))"
      and l = "''Pages free: 7.''" and key = "''Pages free''" and y = 7
      and ?ls1.0 = "[''Pages free: 5.'']" and ?ls2.0 = "[''Pages active: 3.'']"]
  have rej: "\<forall>t. CHR '':'' \<in> set t \<longrightarrow> ParseFloat_decimal t = None"
    by (simp add: ParseFloat_decimal_colon)
  have c7: "contribution ParseFloat_decimal ''Pages free: 7.'' ''Pages free'' = Some 7"
    and c3: "contribution ParseFloat_decimal ''Pages active: 3.'' ''Pages free'' = None"
    by (simp_all add: vm_eval_defs)
  have a: "CHR '':'' \<notin> set ''Mach Virtual Memory Statistics''"
    by simp
  have b: "vm_line ParseFloat_decimal Map.empty ''Mach Virtual Memory Statistics'' = Map.empty"
    using W a by blast
  have c: "vm_line ParseFloat_decimal Map.empty ''Pages free:     5123.'' = [''Pages free'' \<mapsto> 5123]"
    using W [THEN conjunct2, THEN conjunct1]
    by (simp add: TrimSpace_def TrimRight_def isSpace_def ParseFloat_decimal_def
          unsigned_decimal_def digit_of_def)
  have d: "TrimRight ''5123...'' ''.'' = ''5123''"
    using W [THEN conjunct2, THEN conjunct2, THEN conjunct1] by simp
  have e: "vm_line ParseFloat_decimal Map.empty ''Pages free: 1: 2.'' = Map.empty"
    using W' [THEN conjunct2, THEN conjunct2, THEN conjunct2, THEN conjunct1] rej by simp
  have f: "vm_scan ParseFloat_decimal Map.empty
        [''Pages free: 5.'', ''Pages free: 7.'', ''Pages active: 3.''] ''Pages free'' = Some 7"
    using W [THEN conjunct2, THEN conjunct2, THEN conjunct2, THEN conjunct2] c7 c3 by simp
  show ?thesis using a b c d e c7 c3 f by blast
qed

text \<open>
  The claim as stated strips a single trailing period. On a value that ends in several
  periods the two differ: the code adds the entry, the parser of the claim finds
  \<^verbatim>\<open>5..\<close> and adds nothing.
\<close>

theorem C2_trailing_periods_counterexample:
  "vm_line ParseFloat_decimal Map.empty ''Pages free: 5...'' ''Pages free'' = Some 5
   \<and> TrimSuffix (TrimSpace '' 5...'') ''.'' = ''5..''
   \<and> ParseFloat_decimal ''5..'' = None
   \<and> spec_kv_line ParseFloat_decimal Map.empty ''Pages free: 5...'' ''Pages free'' = None"
  by (simp add: vm_eval_defs)

section \<open>The samples of the vm_stat collector\<close>

lemma send_if_present_eq:
  "send_if_present m key d t =
     \<lparr>sent = (case m key of
               Some v \<Rightarrow> [\<lparr>desc = d, valueType = t, val = v, labelValues = []\<rparr>]
             | None \<Rightarrow> []),
      logged = [], panicked = None\<rparr>"
  by (simp add: send_if_present_def send_label_free vm_variableLabels_def skip_def
        split: option.splits)

lemma samples_of_send_if_present:
  "samples_of d (sent (send_if_present m key d' t)) =
     (if d' = d then sent (send_if_present m key d' t) else [])"
  by (simp add: send_if_present_eq samples_of_Nil samples_of_Cons split: option.splits)

lemma vm_emit_rules:
  "vm_emit m = seq (map (\<lambda>(key, d, t). send_if_present m key d t) vm_rules)"
  by (simp add: vm_emit_def vm_rules_def)

lemma vm_emit_sel:
  "panicked (vm_emit m) = None"
  "logged (vm_emit m) = []"
  "sent (vm_emit m) =
     concat (map sent (map (\<lambda>(key, d, t). send_if_present m key d t) vm_rules))"
proof -
  let ?ps = "map (\<lambda>(key, d, t). send_if_present m key d t) vm_rules"
  have q: "\<forall>a \<in> set ?ps. panicked a = None"
    by (auto simp: send_if_present_eq)
  note sq = seq_no_panic [OF q]
  have l: "concat (map logged ?ps) = []"
    by (simp add: vm_rules_def send_if_present_eq)
  show "panicked (vm_emit m) = None"
    using sq unfolding vm_emit_rules by blast
  show "logged (vm_emit m) = []"
    using sq l unfolding vm_emit_rules by simp
  show "sent (vm_emit m) = concat (map sent ?ps)"
    using sq unfolding vm_emit_rules by blast
qed

lemma vm_emit_rule:
  "(key, d, t) \<in> set vm_rules \<Longrightarrow>
   samples_of d (sent (vm_emit m)) = sent (send_if_present m key d t)"
  unfolding vm_emit_sel vm_rules_def
  by (auto simp: samples_of_append samples_of_Nil samples_of_send_if_present)

lemma vm_rules_not_pageSize: "(key, d, t) \<in> set vm_rules \<Longrightarrow> d \<noteq> pageSize"
  unfolding vm_rules_def by auto

lemma vm_emit_pageSize: "samples_of pageSize (sent (vm_emit m)) = []"
  unfolding vm_emit_sel vm_rules_def
  by (simp add: samples_of_append samples_of_Nil samples_of_send_if_present)

lemma vm_Collect_eq:
  "vm_Collect getpagesize pf r =
     (case run_err r of
        Some err \<Rightarrow>
          \<lparr>sent = [\<lparr>desc = pageSize, valueType = GaugeValue, val = real_of_int getpagesize,
                     labelValues = []\<rparr>],
           logged = [''Failed to run vm_stat: '' @ err], panicked = None\<rparr>
      | None \<Rightarrow>
          \<lparr>sent = \<lparr>desc = pageSize, valueType = GaugeValue, val = real_of_int getpagesize,
                    labelValues = []\<rparr>
                  # sent (vm_emit (vm_scan pf Map.empty (ScanLines (stdout r)))),
           logged = [], panicked = None\<rparr>)"
  by (simp add: vm_Collect_def send_label_free vm_variableLabels_def andThen_def log_Printf_def
        vm_emit_sel split: option.splits)

text \<open>
  Claim C5. For every rule (key, descriptor, value type) of the vm_stat collector and
  every snapshot, the samples of that descriptor are: one sample with the snapshot's value
  when the key is present, none when it is absent (no zero-valued sample, nothing logged,
  no panic). The same holds for what \<^verbatim>\<open>Collect\<close> sends after a successful run.
\<close>

theorem C5_sample_exactly_when_key_present:
  "(key, d, t) \<in> set vm_rules \<Longrightarrow>
     samples_of d (sent (vm_emit valueMap)) =
       (case valueMap key of
          Some v \<Rightarrow> [\<lparr>desc = d, valueType = t, val = v, labelValues = []\<rparr>]
        | None \<Rightarrow> [])
     \<and> samples_of d (sent (vm_Collect getpagesize pf \<lparr>run_err = None, stdout = out\<rparr>)) =
       (case vm_scan pf Map.empty (ScanLines out) key of
          Some v \<Rightarrow> [\<lparr>desc = d, valueType = t, val = v, labelValues = []\<rparr>]
        | None \<Rightarrow> [])
     \<and> logged (vm_Collect getpagesize pf \<lparr>run_err = None, stdout = out\<rparr>) = []
     \<and> panicked (vm_emit valueMap) = None
     \<and> panicked (vm_Collect getpagesize pf \<lparr>run_err = None, stdout = out\<rparr>) = None"
  using vm_rules_not_pageSize [of key d t]
  by (simp add: vm_emit_rule vm_Collect_eq samples_of_Cons vm_emit_sel(1))
     (simp add: send_if_present_eq)

theorem C5_sample_exactly_when_key_present_witness:
  "(''Pages purgeable'', purgeablePages, GaugeValue) \<in> set vm_rules
   \<and> [''Pages free'' \<mapsto> 5123] ''Pages purgeable'' = None
   \<and> samples_of purgeablePages (sent (vm_emit [''Pages free'' \<mapsto> 5123])) = []
   \<and> samples_of purgeablePages (sent (vm_Collect 16384 ParseFloat_decimal
        \<lparr>run_err = None, stdout = ''Pages free:     5123.'' @ [CHR 0x0A]\<rparr>)) = []"
proof -
  have r: "(''Pages purgeable'', purgeablePages, GaugeValue) \<in> set vm_rules"
    by (simp add: vm_rules_def)
  have s: "vm_scan ParseFloat_decimal Map.empty
             (ScanLines (''Pages free:     5123.'' @ [CHR 0x0A])) ''Pages purgeable'' = None"
    by (simp add: vm_eval_defs ScanLines_def dropCR_def MaxScanTokenSize_def)
  show ?thesis
    using r s
      C5_sample_exactly_when_key_present [OF r, of "[''Pages free'' \<mapsto> 5123]" 16384
        ParseFloat_decimal "''Pages free:     5123.'' @ [CHR 0x0A]"]
    by simp
qed

text \<open>
  Claim C7. Whatever \<^verbatim>\<open>vm_stat\<close> does, the vm_stat collector sends exactly one sample of
  the page-size descriptor in a cycle, a gauge whose value is the page size obtained from
  the operating system.
\<close>

theorem C7_page_size_sample_every_cycle:
  "samples_of pageSize (sent (vm_Collect getpagesize pf r)) =
     [\<lparr>desc = pageSize, valueType = GaugeValue, val = real_of_int getpagesize,
       labelValues = []\<rparr>]"
  by (simp add: vm_Collect_eq samples_of_Cons samples_of_Nil vm_emit_pageSize
        split: option.splits)

theorem C7_page_size_sample_witness:
  "samples_of pageSize (sent (vm_Collect 16384 ParseFloat_decimal
      \<lparr>run_err = Some ''exit status 1'', stdout = []\<rparr>))
     = [\<lparr>desc = pageSize, valueType = GaugeValue, val = 16384, labelValues = []\<rparr>]
   \<and> samples_of pageSize (sent (vm_Collect 16384 ParseFloat_decimal
      \<lparr>run_err = None, stdout = ''Pages free:     5123.'' @ [CHR 0x0A]\<rparr>))
     = [\<lparr>desc = pageSize, valueType = GaugeValue, val = 16384, labelValues = []\<rparr>]"
  using C7_page_size_sample_every_cycle [of 16384 ParseFloat_decimal
          "\<lparr>run_err = Some ''exit status 1'', stdout = []\<rparr>"]
        C7_page_size_sample_every_cycle [of 16384 ParseFloat_decimal
          "\<lparr>run_err = None, stdout = ''Pages free:     5123.'' @ [CHR 0x0A]\<rparr>"]
  by simp

section \<open>A source that fails\<close>

text \<open>
  Claim C6. When the command of a collector fails, that collector logs the failure, sends
  no parsed sample (the vm_stat collector has sent its page-size sample before it runs the
  command) and returns without a panic. What the other collector of the cycle does is
  what it does on its own: it does not depend on the run of the failed one.
\<close>

theorem C6_failed_source_is_isolated:
  "(run_err (powermetrics_run i) = Some err \<longrightarrow>
      fst (collect_cycle pf i) =
        \<lparr>sent = [], logged = [''Failed to run powermetrics: '' @ err], panicked = None\<rparr>
      \<and> snd (collect_cycle pf i) = vm_Collect (getpagesize_result i) pf (vm_stat_run i))
   \<and> (run_err (vm_stat_run i) = Some err \<longrightarrow>
      snd (collect_cycle pf i) =
        \<lparr>sent = [\<lparr>desc = pageSize, valueType = GaugeValue,
                   val = real_of_int (getpagesize_result i), labelValues = []\<rparr>],
         logged = [''Failed to run vm_stat: '' @ err], panicked = None\<rparr>
      \<and> fst (collect_cycle pf i) = pm_Collect pf (powermetrics_run i))
   \<and> (run_err r = Some err \<longrightarrow>
      mm_Collect unmarshal r =
        \<lparr>sent = [], logged = [''Failed to run macmon: '' @ err], panicked = None\<rparr>)
   \<and> snd (collect_cycle pf (i\<lparr>powermetrics_run := r\<rparr>)) = snd (collect_cycle pf i)
   \<and> fst (collect_cycle pf (i\<lparr>vm_stat_run := r\<rparr>)) = fst (collect_cycle pf i)"
  by (simp add: collect_cycle_def pm_Collect_def vm_Collect_eq mm_Collect_def log_Printf_def)

theorem C6_failed_source_witness:
  "fst (collect_cycle ParseFloat_decimal
      \<lparr>getpagesize_result = 16384,
       powermetrics_run = \<lparr>run_err = Some ''exit status 1'', stdout = []\<rparr>,
       vm_stat_run = \<lparr>run_err = None, stdout = ''Pages free:     5123.'' @ [CHR 0x0A]\<rparr>\<rparr>)
     = \<lparr>sent = [], logged = [''Failed to run powermetrics: exit status 1''], panicked = None\<rparr>
   \<and> snd (collect_cycle ParseFloat_decimal
      \<lparr>getpagesize_result = 16384,
       powermetrics_run = \<lparr>run_err = Some ''exit status 1'', stdout = []\<rparr>,
       vm_stat_run = \<lparr>run_err = None, stdout = ''Pages free:     5123.'' @ [CHR 0x0A]\<rparr>\<rparr>)
     = \<lparr>sent = [\<lparr>desc = pageSize, valueType = GaugeValue, val = 16384, labelValues = []\<rparr>,
                \<lparr>desc = freePages, valueType = GaugeValue, val = 5123, labelValues = []\<rparr>],
        logged = [], panicked = None\<rparr>"
proof -
  have vm: "vm_Collect 16384 ParseFloat_decimal
               \<lparr>run_err = None, stdout = ''Pages free:     5123.'' @ [CHR 0x0A]\<rparr>
     = \<lparr>sent = [\<lparr>desc = pageSize, valueType = GaugeValue, val = 16384, labelValues = []\<rparr>,
                \<lparr>desc = freePages, valueType = GaugeValue, val = 5123, labelValues = []\<rparr>],
        logged = [], panicked = None\<rparr>"
    by (simp add: vm_Collect_eq vm_emit_sel vm_rules_def send_if_present_eq vm_eval_defs
          ScanLines_def dropCR_def MaxScanTokenSize_def)
  show ?thesis
    using vm
      C6_failed_source_is_isolated [where pf = ParseFloat_decimal and err = "''exit status 1''"
        and i = "\<lparr>getpagesize_result = 16384,
          powermetrics_run = \<lparr>run_err = Some ''exit status 1'', stdout = []\<rparr>,
          vm_stat_run = \<lparr>run_err = None, stdout = ''Pages free:     5123.'' @ [CHR 0x0A]\<rparr>\<rparr>"
        and r = "\<lparr>run_err = Some ''exit status 1'', stdout = []\<rparr>"
        and unmarshal = example_unmarshal]
    by simp
qed

section \<open>The macmon collector: records that do not decode, fields that are absent\<close>

lemma usage_pair_eq:
  "usage_pair dfreq dusage arr =
     \<lparr>sent = (if 2 \<le> length arr
              then [\<lparr>desc = dfreq, valueType = GaugeValue, val = arr ! 0, labelValues = []\<rparr>,
                    \<lparr>desc = dusage, valueType = GaugeValue, val = arr ! 1, labelValues = []\<rparr>]
              else []),
      logged = [], panicked = None\<rparr>"
  by (simp add: usage_pair_def send_label_free mm_variableLabels_def andThen_def skip_def)

lemma mm_emit_eq:
  "mm_emit data =
     \<lparr>sent =
        [\<lparr>desc = mm_allPower, valueType = GaugeValue, val = AllPower data, labelValues = []\<rparr>,
         \<lparr>desc = mm_anePower, valueType = GaugeValue, val = ANEPower data, labelValues = []\<rparr>,
         \<lparr>desc = mm_cpuPower, valueType = GaugeValue, val = CPUPower data, labelValues = []\<rparr>,
         \<lparr>desc = mm_gpuPower, valueType = GaugeValue, val = GPUPower data, labelValues = []\<rparr>,
         \<lparr>desc = mm_gpuRAMPower, valueType = GaugeValue, val = GPURAMPower data,
           labelValues = []\<rparr>,
         \<lparr>desc = mm_ramPower, valueType = GaugeValue, val = RAMPower data, labelValues = []\<rparr>,
         \<lparr>desc = mm_sysPower, valueType = GaugeValue, val = SysPower data, labelValues = []\<rparr>,
         \<lparr>desc = mm_cpuTempAvg, valueType = GaugeValue, val = Temp_CPUTempAvg data,
           labelValues = []\<rparr>,
         \<lparr>desc = mm_gpuTempAvg, valueType = GaugeValue, val = Temp_GPUTempAvg data,
           labelValues = []\<rparr>]
        @ sent (usage_pair mm_ecpuFrequency mm_ecpuUsagePercent (ECPUsage data))
        @ sent (usage_pair mm_pcpuFrequency mm_pcpuUsagePercent (PCPUsage data))
        @ sent (usage_pair mm_gpuFrequency mm_gpuUsagePercent (GPUUsage data))
        @ [\<lparr>desc = mm_ramTotalBytes, valueType = GaugeValue,
             val = real_of_int (Memory_RAMTotal data), labelValues = []\<rparr>,
           \<lparr>desc = mm_ramUsedBytes, valueType = GaugeValue,
             val = real_of_int (Memory_RAMUsage data), labelValues = []\<rparr>,
           \<lparr>desc = mm_swapTotalBytes, valueType = GaugeValue,
             val = real_of_int (Memory_SwapTotal data), labelValues = []\<rparr>,
           \<lparr>desc = mm_swapUsedBytes, valueType = GaugeValue,
             val = real_of_int (Memory_SwapUsage data), labelValues = []\<rparr>],
      logged = [], panicked = None\<rparr>"
  by (simp add: mm_emit_def send_label_free mm_variableLabels_def andThen_def skip_def
        usage_pair_eq)

lemma mm_emit_sel: "panicked (mm_emit data) = None" "logged (mm_emit data) = []"
  by (simp_all add: mm_emit_eq)

lemma mm_emit_nonempty: "sent (mm_emit data) \<noteq> []"
  by (simp add: mm_emit_eq)

lemma mm_line_ok: "u line zero_MacMonOutput = Inr data \<Longrightarrow> mm_line u line = mm_emit data"
  by (simp add: mm_line_def)

lemma mm_line_bad:
  "u line zero_MacMonOutput = Inl err \<Longrightarrow>
   mm_line u line = \<lparr>sent = [], logged = [''Failed to parse JSON: '' @ err], panicked = None\<rparr>"
  by (simp add: mm_line_def log_Printf_def)

lemma mm_line_no_panic: "panicked (mm_line u line) = None"
  by (simp add: mm_line_def log_Printf_def mm_emit_sel split: sum.splits)

lemma mm_scan_no_panic: "panicked (mm_scan u ls) = None"
  by (induction ls) (simp_all add: skip_sel andThen_sel mm_line_no_panic)

lemma mm_scan_append:
  "sent (mm_scan u (xs @ ys)) = sent (mm_scan u xs) @ sent (mm_scan u ys)"
  "logged (mm_scan u (xs @ ys)) = logged (mm_scan u xs) @ logged (mm_scan u ys)"
  by (induction xs) (simp_all add: andThen_sel mm_line_no_panic skip_sel mm_scan_no_panic)

lemma mm_scan_member:
  "line \<in> set ls \<Longrightarrow> u line zero_MacMonOutput = Inr data \<Longrightarrow>
   set (sent (mm_emit data)) \<subseteq> set (sent (mm_scan u ls))"
  by (induction ls) (auto simp: andThen_sel mm_line_no_panic mm_line_ok)

text \<open>What the scanner delivers.\<close>

lemma raw_lines_line:
  "CHR 0x0A \<notin> set xs \<Longrightarrow> raw_lines cur (xs @ CHR 0x0A # rest) = (cur @ xs) # raw_lines [] rest"
  by (induction xs arbitrary: cur) auto

lemma ScanLines_all:
  "\<forall>l \<in> set (raw_lines [] data). length l < MaxScanTokenSize \<Longrightarrow>
   ScanLines data = map dropCR (raw_lines [] data)"
  by (simp add: ScanLines_def takeWhile_eq_all_conv [THEN iffD2])

lemma ScanLines_stop:
  "raw_lines [] data = short @ long # rest \<Longrightarrow>
   \<forall>l \<in> set short. length l < MaxScanTokenSize \<Longrightarrow> MaxScanTokenSize \<le> length long \<Longrightarrow>
   ScanLines data = map dropCR short"
  by (simp add: ScanLines_def)

text \<open>
  Claim C8, as the code has it. A line that the scanner delivers and \<^verbatim>\<open>json.Unmarshal\<close>
  rejects is logged and sends nothing; the delivered lines before and after it are
  processed as if it were not there, so every later delivered line that decodes still
  sends its (non-empty) samples, and nothing panics. \<^verbatim>\<open>Collect\<close> processes exactly the
  lines the scanner delivers: all lines of the capture when each is shorter than
  \<^verbatim>\<open>MaxScanTokenSize\<close>, otherwise those before the first line that is not, where the
  loop ends without a log entry.
\<close>

theorem C8_decode_failure_skips_only_that_line:
  "unmarshal bad zero_MacMonOutput = Inl err \<Longrightarrow>
     sent (mm_scan unmarshal (ls1 @ bad # ls2)) =
       sent (mm_scan unmarshal ls1) @ sent (mm_scan unmarshal ls2)
     \<and> logged (mm_scan unmarshal (ls1 @ bad # ls2)) =
       logged (mm_scan unmarshal ls1) @ [''Failed to parse JSON: '' @ err]
         @ logged (mm_scan unmarshal ls2)
     \<and> panicked (mm_scan unmarshal (ls1 @ bad # ls2)) = None
     \<and> (\<forall>line \<in> set ls2. \<forall>data. unmarshal line zero_MacMonOutput = Inr data \<longrightarrow>
           sent (mm_emit data) \<noteq> []
           \<and> set (sent (mm_emit data)) \<subseteq> set (sent (mm_scan unmarshal (ls1 @ bad # ls2))))
     \<and> (run_err r = None \<longrightarrow>
           mm_Collect unmarshal r = mm_scan unmarshal (ScanLines (stdout r)))
     \<and> ((\<forall>l \<in> set (raw_lines [] data). length l < MaxScanTokenSize) \<longrightarrow>
           ScanLines data = map dropCR (raw_lines [] data))
     \<and> (raw_lines [] data = short @ long # rest
          \<and> (\<forall>l \<in> set short. length l < MaxScanTokenSize)
          \<and> MaxScanTokenSize \<le> length long \<longrightarrow>
           ScanLines data = map dropCR short)"
proof (intro conjI ballI allI impI)
  assume bad: "unmarshal bad zero_MacMonOutput = Inl err"
  show "sent (mm_scan unmarshal (ls1 @ bad # ls2)) =
       sent (mm_scan unmarshal ls1) @ sent (mm_scan unmarshal ls2)"
    using bad by (simp add: mm_scan_append andThen_sel mm_line_no_panic mm_line_bad)
  show "logged (mm_scan unmarshal (ls1 @ bad # ls2)) =
       logged (mm_scan unmarshal ls1) @ [''Failed to parse JSON: '' @ err]
         @ logged (mm_scan unmarshal ls2)"
    using bad by (simp add: mm_scan_append andThen_sel mm_line_no_panic mm_line_bad)
  show "panicked (mm_scan unmarshal (ls1 @ bad # ls2)) = None"
    by (rule mm_scan_no_panic)
next
  fix line data
  show "sent (mm_emit data) \<noteq> []" by (rule mm_emit_nonempty)
next
  fix line data
  assume "line \<in> set ls2" and "unmarshal line zero_MacMonOutput = Inr data"
  then show "set (sent (mm_emit data)) \<subseteq> set (sent (mm_scan unmarshal (ls1 @ bad # ls2)))"
    using mm_scan_member [of line "ls1 @ bad # ls2" unmarshal data] by simp
next
  assume "run_err r = None"
  then show "mm_Collect unmarshal r = mm_scan unmarshal (ScanLines (stdout r))"
    by (simp add: mm_Collect_def)
next
  assume "\<forall>l \<in> set (raw_lines [] data). length l < MaxScanTokenSize"
  then show "ScanLines data = map dropCR (raw_lines [] data)" by (rule ScanLines_all)
next
  assume "raw_lines [] data = short @ long # rest
          \<and> (\<forall>l \<in> set short. length l < MaxScanTokenSize)
          \<and> MaxScanTokenSize \<le> length long"
  then show "ScanLines data = map dropCR short"
    using ScanLines_stop [of data short long rest] by blast
qed

theorem C8_decode_failure_witness:
  "example_unmarshal ''not json'' zero_MacMonOutput = Inl ''invalid character''
   \<and> example_unmarshal ''{}'' zero_MacMonOutput = Inr zero_MacMonOutput
   \<and> sent (mm_scan example_unmarshal [''{}'', ''not json'', ''{}'']) =
       sent (mm_emit zero_MacMonOutput) @ sent (mm_emit zero_MacMonOutput)
   \<and> logged (mm_scan example_unmarshal [''{}'', ''not json'', ''{}'']) =
       [''Failed to parse JSON: invalid character'']
   \<and> mm_Collect example_unmarshal
        \<lparr>run_err = None,
         stdout = ''{}'' @ [CHR 0x0A] @ ''not json'' @ [CHR 0x0A] @ ''{}'' @ [CHR 0x0A]\<rparr>
       = mm_scan example_unmarshal [''{}'', ''not json'', ''{}'']"
proof -
  have bad: "example_unmarshal ''not json'' zero_MacMonOutput = Inl ''invalid character''"
    by (simp add: example_unmarshal_def)
  have ok: "example_unmarshal ''{}'' zero_MacMonOutput = Inr zero_MacMonOutput"
    by (simp add: example_unmarshal_def)
  have sc: "ScanLines (''{}'' @ [CHR 0x0A] @ ''not json'' @ [CHR 0x0A] @ ''{}'' @ [CHR 0x0A])
              = [''{}'', ''not json'', ''{}'']"
    by (simp add: ScanLines_def dropCR_def MaxScanTokenSize_def)
  have one: "mm_scan example_unmarshal [''{}''] = mm_emit zero_MacMonOutput"
    by (simp add: mm_line_ok [of example_unmarshal, OF ok] andThen_skip)
  show ?thesis
    using bad ok sc one
      C8_decode_failure_skips_only_that_line [where unmarshal = example_unmarshal
        and bad = "''not json''" and err = "''invalid character''"
        and ?ls1.0 = "[''{}'']" and ?ls2.0 = "[''{}'']"
        and r = "\<lparr>run_err = None,
          stdout = ''{}'' @ [CHR 0x0A] @ ''not json'' @ [CHR 0x0A] @ ''{}'' @ [CHR 0x0A]\<rparr>"
        and data = "[]" and short = "[]" and long = "[]" and rest = "[]"]
    by (simp add: mm_emit_sel)
qed

text \<open>
  The claim as stated has every line after a malformed one processed. In the capture
  below the malformed line is followed by a line of 65536 bytes and then by a line that
  decodes: the scanner stops at the long line, and the valid line sends nothing.
\<close>

theorem C8_overlong_line_counterexample:
  "example_unmarshal ''not json'' zero_MacMonOutput = Inl ''invalid character''
   \<and> example_unmarshal ''{}'' zero_MacMonOutput = Inr zero_MacMonOutput
   \<and> sent (mm_emit zero_MacMonOutput) \<noteq> []
   \<and> raw_lines []
        (''not json'' @ [CHR 0x0A] @ replicate 65536 (CHR ''x'') @ [CHR 0x0A] @ ''{}''
           @ [CHR 0x0A])
       = [''not json'', replicate 65536 (CHR ''x''), ''{}'']
   \<and> mm_Collect example_unmarshal
        \<lparr>run_err = None,
         stdout = ''not json'' @ [CHR 0x0A] @ replicate 65536 (CHR ''x'') @ [CHR 0x0A] @ ''{}''
                    @ [CHR 0x0A]\<rparr>
       = \<lparr>sent = [], logged = [''Failed to parse JSON: invalid character''], panicked = None\<rparr>"
proof -
  let ?big = "replicate 65536 (CHR ''x'')"
  have bad: "example_unmarshal ''not json'' zero_MacMonOutput = Inl ''invalid character''"
    by (simp add: example_unmarshal_def)
  have ok: "example_unmarshal ''{}'' zero_MacMonOutput = Inr zero_MacMonOutput"
    by (simp add: example_unmarshal_def)
  have nl: "CHR 0x0A \<notin> set ?big"
    by simp
  have r3: "raw_lines [] (''{}'' @ [CHR 0x0A]) = [''{}'']"
    by simp
  have r2: "raw_lines [] (?big @ CHR 0x0A # (''{}'' @ [CHR 0x0A])) = [?big, ''{}'']"
    using raw_lines_line [OF nl, of "[]" "''{}'' @ [CHR 0x0A]"] r3 by simp
  have r1: "raw_lines [] (''not json'' @ CHR 0x0A # (?big @ CHR 0x0A # (''{}'' @ [CHR 0x0A])))
              = [''not json'', ?big, ''{}'']"
    using raw_lines_line [of "''not json''" "[]" "?big @ CHR 0x0A # (''{}'' @ [CHR 0x0A])"] r2
    by simp
  have raw: "raw_lines []
        (''not json'' @ [CHR 0x0A] @ ?big @ [CHR 0x0A] @ ''{}'' @ [CHR 0x0A])
       = [''not json'', ?big, ''{}'']"
    using r1 by simp
  have sc: "ScanLines (''not json'' @ [CHR 0x0A] @ ?big @ [CHR 0x0A] @ ''{}'' @ [CHR 0x0A])
              = [''not json'']"
    using raw
      ScanLines_stop [of "''not json'' @ [CHR 0x0A] @ ?big @ [CHR 0x0A] @ ''{}'' @ [CHR 0x0A]"
        "[''not json'']" ?big "[''{}'']"]
    by (simp add: MaxScanTokenSize_def dropCR_def)
  have col: "mm_Collect example_unmarshal
        \<lparr>run_err = None,
         stdout = ''not json'' @ [CHR 0x0A] @ ?big @ [CHR 0x0A] @ ''{}'' @ [CHR 0x0A]\<rparr>
       = \<lparr>sent = [], logged = [''Failed to parse JSON: invalid character''], panicked = None\<rparr>"
    using sc mm_line_bad [of example_unmarshal, OF bad]
    by (simp add: mm_Collect_def andThen_skip)
  show ?thesis
    using bad ok raw col mm_emit_nonempty [of zero_MacMonOutput] by blast
qed

lemma mm_emit_each_scalar:
  "samples_of mm_allPower (sent (mm_emit data)) =
     [\<lparr>desc = mm_allPower, valueType = GaugeValue, val = AllPower data, labelValues = []\<rparr>]"
  "samples_of mm_anePower (sent (mm_emit data)) =
     [\<lparr>desc = mm_anePower, valueType = GaugeValue, val = ANEPower data, labelValues = []\<rparr>]"
  "samples_of mm_cpuPower (sent (mm_emit data)) =
     [\<lparr>desc = mm_cpuPower, valueType = GaugeValue, val = CPUPower data, labelValues = []\<rparr>]"
  "samples_of mm_gpuPower (sent (mm_emit data)) =
     [\<lparr>desc = mm_gpuPower, valueType = GaugeValue, val = GPUPower data, labelValues = []\<rparr>]"
  "samples_of mm_gpuRAMPower (sent (mm_emit data)) =
     [\<lparr>desc = mm_gpuRAMPower, valueType = GaugeValue, val = GPURAMPower data, labelValues = []\<rparr>]"
  "samples_of mm_ramPower (sent (mm_emit data)) =
     [\<lparr>desc = mm_ramPower, valueType = GaugeValue, val = RAMPower data, labelValues = []\<rparr>]"
  "samples_of mm_sysPower (sent (mm_emit data)) =
     [\<lparr>desc = mm_sysPower, valueType = GaugeValue, val = SysPower data, labelValues = []\<rparr>]"
  "samples_of mm_cpuTempAvg (sent (mm_emit data)) =
     [\<lparr>desc = mm_cpuTempAvg, valueType = GaugeValue, val = Temp_CPUTempAvg data, labelValues = []\<rparr>]"
  "samples_of mm_gpuTempAvg (sent (mm_emit data)) =
     [\<lparr>desc = mm_gpuTempAvg, valueType = GaugeValue, val = Temp_GPUTempAvg data, labelValues = []\<rparr>]"
  "samples_of mm_ramTotalBytes (sent (mm_emit data)) =
     [\<lparr>desc = mm_ramTotalBytes, valueType = GaugeValue, val = real_of_int (Memory_RAMTotal data), labelValues = []\<rparr>]"
  "samples_of mm_ramUsedBytes (sent (mm_emit data)) =
     [\<lparr>desc = mm_ramUsedBytes, valueType = GaugeValue, val = real_of_int (Memory_RAMUsage data), labelValues = []\<rparr>]"
  "samples_of mm_swapTotalBytes (sent (mm_emit data)) =
     [\<lparr>desc = mm_swapTotalBytes, valueType = GaugeValue, val = real_of_int (Memory_SwapTotal data), labelValues = []\<rparr>]"
  "samples_of mm_swapUsedBytes (sent (mm_emit data)) =
     [\<lparr>desc = mm_swapUsedBytes, valueType = GaugeValue, val = real_of_int (Memory_SwapUsage data), labelValues = []\<rparr>]"
  by (simp_all add: mm_emit_eq usage_pair_eq samples_of_append samples_of_Cons samples_of_Nil)

lemma mm_emit_each_pair:
  "samples_of mm_ecpuFrequency (sent (mm_emit data)) =
     (if 2 \<le> length (ECPUsage data)
      then [\<lparr>desc = mm_ecpuFrequency, valueType = GaugeValue, val = ECPUsage data ! 0, labelValues = []\<rparr>]
      else [])"
  "samples_of mm_ecpuUsagePercent (sent (mm_emit data)) =
     (if 2 \<le> length (ECPUsage data)
      then [\<lparr>desc = mm_ecpuUsagePercent, valueType = GaugeValue, val = ECPUsage data ! 1, labelValues = []\<rparr>]
      else [])"
  "samples_of mm_pcpuFrequency (sent (mm_emit data)) =
     (if 2 \<le> length (PCPUsage data)
      then [\<lparr>desc = mm_pcpuFrequency, valueType = GaugeValue, val = PCPUsage data ! 0, labelValues = []\<rparr>]
      else [])"
  "samples_of mm_pcpuUsagePercent (sent (mm_emit data)) =
     (if 2 \<le> length (PCPUsage data)
      then [\<lparr>desc = mm_pcpuUsagePercent, valueType = GaugeValue, val = PCPUsage data ! 1, labelValues = []\<rparr>]
      else [])"
  "samples_of mm_gpuFrequency (sent (mm_emit data)) =
     (if 2 \<le> length (GPUUsage data)
      then [\<lparr>desc = mm_gpuFrequency, valueType = GaugeValue, val = GPUUsage data ! 0, labelValues = []\<rparr>]
      else [])"
  "samples_of mm_gpuUsagePercent (sent (mm_emit data)) =
     (if 2 \<le> length (GPUUsage data)
      then [\<lparr>desc = mm_gpuUsagePercent, valueType = GaugeValue, val = GPUUsage data ! 1, labelValues = []\<rparr>]
      else [])"
  by (simp_all add: mm_emit_eq usage_pair_eq samples_of_append samples_of_Cons samples_of_Nil)

lemma mm_emit_scalar:
  "(d, field) \<in> set mm_scalars \<Longrightarrow>
   samples_of d (sent (mm_emit data)) =
     [\<lparr>desc = d, valueType = GaugeValue, val = field data, labelValues = []\<rparr>]"
  unfolding mm_scalars_def by (auto simp: mm_emit_each_scalar)

lemma mm_emit_pair:
  "(dfreq, dusage, arr) \<in> set mm_pairs \<Longrightarrow>
   samples_of dfreq (sent (mm_emit data)) =
     (if 2 \<le> length (arr data)
      then [\<lparr>desc = dfreq, valueType = GaugeValue, val = arr data ! 0, labelValues = []\<rparr>]
      else [])
   \<and> samples_of dusage (sent (mm_emit data)) =
     (if 2 \<le> length (arr data)
      then [\<lparr>desc = dusage, valueType = GaugeValue, val = arr data ! 1, labelValues = []\<rparr>]
      else [])"
  unfolding mm_pairs_def by (auto simp: mm_emit_each_pair)

lemma mm_scalar_zero: "(d, field) \<in> set mm_scalars \<Longrightarrow> field zero_MacMonOutput = 0"
  unfolding mm_scalars_def zero_MacMonOutput_def by auto

text \<open>
  Claim C9. For a line that decodes, every scalar power, temperature and memory
  descriptor gets exactly one sample, whose value is the field of the decoded struct; a
  field that the decoder left at the zero value of the fresh struct is sent with value 0.
  The frequency and usage samples of a compute domain are sent exactly when its array has
  at least two elements. No send of the macmon collector can panic.
\<close>

theorem C9_scalars_unconditional_pairs_guarded:
  "unmarshal line zero_MacMonOutput = Inr data \<Longrightarrow>
     mm_line unmarshal line = mm_emit data
     \<and> panicked (mm_emit data) = None
     \<and> (\<forall>(d, field) \<in> set mm_scalars.
           samples_of d (sent (mm_emit data)) =
             [\<lparr>desc = d, valueType = GaugeValue, val = field data, labelValues = []\<rparr>]
           \<and> (field data = field zero_MacMonOutput \<longrightarrow>
                samples_of d (sent (mm_emit data)) =
                  [\<lparr>desc = d, valueType = GaugeValue, val = 0, labelValues = []\<rparr>]))
     \<and> (\<forall>(dfreq, dusage, arr) \<in> set mm_pairs.
           samples_of dfreq (sent (mm_emit data)) =
             (if 2 \<le> length (arr data)
              then [\<lparr>desc = dfreq, valueType = GaugeValue, val = arr data ! 0,
                     labelValues = []\<rparr>]
              else [])
           \<and> samples_of dusage (sent (mm_emit data)) =
             (if 2 \<le> length (arr data)
              then [\<lparr>desc = dusage, valueType = GaugeValue, val = arr data ! 1,
                     labelValues = []\<rparr>]
              else []))"
proof (intro conjI ballI)
  assume ok: "unmarshal line zero_MacMonOutput = Inr data"
  then show "mm_line unmarshal line = mm_emit data"
    by (simp add: mm_line_ok)
  show "panicked (mm_emit data) = None"
    by (rule mm_emit_sel)
next
  fix row
  assume row: "row \<in> set mm_scalars"
  obtain d field where eq: "row = (d, field)"
    by (cases row)
  show "case row of (d, field) \<Rightarrow>
           samples_of d (sent (mm_emit data)) =
             [\<lparr>desc = d, valueType = GaugeValue, val = field data, labelValues = []\<rparr>]
           \<and> (field data = field zero_MacMonOutput \<longrightarrow>
                samples_of d (sent (mm_emit data)) =
                  [\<lparr>desc = d, valueType = GaugeValue, val = 0, labelValues = []\<rparr>])"
    using row mm_emit_scalar [of d field data] mm_scalar_zero [of d field]
    by (simp add: eq)
next
  fix row
  assume row: "row \<in> set mm_pairs"
  obtain dfreq dusage arr where eq: "row = (dfreq, dusage, arr)"
    by (cases row)
  show "case row of (dfreq, dusage, arr) \<Rightarrow>
           samples_of dfreq (sent (mm_emit data)) =
             (if 2 \<le> length (arr data)
              then [\<lparr>desc = dfreq, valueType = GaugeValue, val = arr data ! 0,
                     labelValues = []\<rparr>]
              else [])
           \<and> samples_of dusage (sent (mm_emit data)) =
             (if 2 \<le> length (arr data)
              then [\<lparr>desc = dusage, valueType = GaugeValue, val = arr data ! 1,
                     labelValues = []\<rparr>]
              else [])"
    using row mm_emit_pair [of dfreq dusage arr data]
    by (simp add: eq)
qed

theorem C9_scalars_unconditional_witness:
  "example_unmarshal ''{}'' zero_MacMonOutput = Inr zero_MacMonOutput
   \<and> (mm_allPower, AllPower) \<in> set mm_scalars
   \<and> samples_of mm_allPower (sent (mm_line example_unmarshal ''{}''))
       = [\<lparr>desc = mm_allPower, valueType = GaugeValue, val = 0, labelValues = []\<rparr>]
   \<and> (mm_ecpuFrequency, mm_ecpuUsagePercent, ECPUsage) \<in> set mm_pairs
   \<and> samples_of mm_ecpuFrequency (sent (mm_line example_unmarshal ''{}'')) = []
   \<and> length (sent (mm_line example_unmarshal ''{}'')) = 13"
proof -
  have ok: "example_unmarshal ''{}'' zero_MacMonOutput = Inr zero_MacMonOutput"
    by (simp add: example_unmarshal_def)
  have s: "(mm_allPower, AllPower) \<in> set mm_scalars"
    by (simp add: mm_scalars_def)
  have p: "(mm_ecpuFrequency, mm_ecpuUsagePercent, ECPUsage) \<in> set mm_pairs"
    by (simp add: mm_pairs_def)
  note W = C9_scalars_unconditional_pairs_guarded [where unmarshal = example_unmarshal
      and line = "''{}''" and data = zero_MacMonOutput, OF ok]
  have a: "samples_of mm_allPower (sent (mm_line example_unmarshal ''{}''))
       = [\<lparr>desc = mm_allPower, valueType = GaugeValue, val = 0, labelValues = []\<rparr>]"
    using W s by (auto simp: zero_MacMonOutput_def)
  have b: "samples_of mm_ecpuFrequency (sent (mm_line example_unmarshal ''{}'')) = []"
    using W p by (auto simp: zero_MacMonOutput_def)
  have c: "length (sent (mm_line example_unmarshal ''{}'')) = 13"
    using W by (simp add: mm_emit_eq usage_pair_eq zero_MacMonOutput_def)
  show ?thesis using ok s p a b c by blast
qed

end
